theory Spec2Isabelle
  imports Complex_Main
begin

section \<open>Strings as Python sees them (ASCII tickers)\<close>

text \<open>
  Tickers and currency codes are modelled as ASCII strings. \<open>py_upper\<close> is
  \<^verbatim>\<open>str.upper()\<close>, \<open>py_strip\<close> is \<^verbatim>\<open>str.strip()\<close> with no argument and
  \<open>py_in sub s\<close> is the substring test \<^verbatim>\<open>sub in s\<close>.
\<close>

definition upper_char :: "char \<Rightarrow> char" where
  "upper_char c =
     (let n = (of_char c :: nat)
      in if 97 \<le> n \<and> n \<le> 122 then char_of (n - 32) else c)"

definition py_upper :: "string \<Rightarrow> string" where
  "py_upper s = map upper_char s"

definition is_space :: "char \<Rightarrow> bool" where
  "is_space c =
     (let n = (of_char c :: nat)
      in (9 \<le> n \<and> n \<le> 13) \<or> (28 \<le> n \<and> n \<le> 32))"

definition py_strip :: "string \<Rightarrow> string" where
  "py_strip s = rev (dropWhile is_space (rev (dropWhile is_space s)))"

fun startswith :: "string \<Rightarrow> string \<Rightarrow> bool" where
  "startswith s [] = True"
| "startswith [] (p # ps) = False"
| "startswith (c # cs) (p # ps) = (c = p \<and> startswith cs ps)"

fun py_in :: "string \<Rightarrow> string \<Rightarrow> bool" where
  "py_in sub [] = (sub = [])"
| "py_in sub (c # cs) = (startswith (c # cs) sub \<or> py_in sub cs)"

definition any_in :: "string list \<Rightarrow> string \<Rightarrow> bool" where
  "any_in suffixes ticker = list_ex (\<lambda>suffix. py_in suffix ticker) suffixes"

section \<open>Currency mapper (utils/currency\_mapper.py)\<close>

definition european_mappings :: "(string \<times> string) list" where
  "european_mappings =
     [(''.AS'', ''EUR''), (''.PA'', ''EUR''), (''.DE'', ''EUR''), (''.MI'', ''EUR''),
      (''.MC'', ''EUR''), (''.VI'', ''EUR''), (''.BR'', ''EUR''), (''.LS'', ''EUR''),
      (''.HE'', ''EUR''), (''.IC'', ''EUR'')]"

text \<open>The \<^verbatim>\<open>for suffix, currency in european_mappings.items()\<close> loop: the first
  entry (in insertion order) whose suffix occurs in the ticker decides.\<close>

fun first_mapping :: "(string \<times> string) list \<Rightarrow> string \<Rightarrow> string option" where
  "first_mapping [] ticker = None"
| "first_mapping ((suffix, currency) # rest) ticker =
     (if py_in suffix ticker then Some currency else first_mapping rest ticker)"

definition currency_of_clean :: "string \<Rightarrow> string" where
  "currency_of_clean ticker =
     (if any_in [''.T'', ''.JP'', ''.OS'', ''.TS''] ticker then ''JPY''
      else case first_mapping european_mappings ticker of
        Some currency \<Rightarrow> currency
      | None \<Rightarrow>
         if any_in [''.L'', ''.LON''] ticker then ''GBP''
         else if py_in ''.SW'' ticker \<or> py_in ''.VX'' ticker then ''CHF''
         else if any_in [''.TO'', ''.V'', ''.CN''] ticker then ''CAD''
         else if py_in ''.AX'' ticker then ''AUD''
         else if py_in ''.HK'' ticker then ''HKD''
         else if py_in ''.SI'' ticker then ''SGD''
         else if any_in [''.SS'', ''.SZ''] ticker then ''CNY''
         else if py_in ''.KS'' ticker \<or> py_in ''.KQ'' ticker then ''KRW''
         else if any_in [''.NS'', ''.BO''] ticker then ''INR''
         else if py_in ''.SA'' ticker then ''BRL''
         else if py_in ''.MX'' ticker then ''MXN''
         else if py_in ''.JO'' ticker then ''ZAR''
         else if py_in ''.ME'' ticker then ''RUB''
         else if py_in ''.IS'' ticker then ''TRY''
         else ''USD'')"

definition get_currency_from_ticker :: "string \<Rightarrow> string" where
  "get_currency_from_ticker ticker = currency_of_clean (py_strip (py_upper ticker))"

section \<open>P and L calculator (modules/pnl\_calculator.py)\<close>

text \<open>
  Amounts are Python floats in the source; the model computes with exact reals, so a
  statement about a value is a statement about the value the formula denotes.
  The dictionary returned by \<^verbatim>\<open>calculate_pnl\<close> is a record with the same keys.
  With float arguments no operation of the \<^verbatim>\<open>try\<close> block raises (the division is
  guarded), so the \<^verbatim>\<open>except\<close> branch is not reachable in the model.
\<close>

record pnl_result =
  ticker :: string
  shares :: real
  avg_cost_jpy :: real
  current_price_local :: real
  current_price_jpy :: real
  exchange_rate :: real
  current_value_jpy :: real
  cost_basis_jpy :: real
  pnl_amount :: real
  pnl_percentage :: real

definition calculate_pnl :: "string \<Rightarrow> real \<Rightarrow> real \<Rightarrow> real \<Rightarrow> real \<Rightarrow> pnl_result" where
  "calculate_pnl tk sh avg_cost price_local rate =
     (let price_jpy = price_local * rate;
          value_jpy = price_jpy * sh;
          cost_basis = avg_cost * sh;
          amount = value_jpy - cost_basis;
          percentage = (if cost_basis > 0 then (amount / cost_basis) * 100 else 0)
      in \<lparr> ticker = tk, shares = sh, avg_cost_jpy = avg_cost,
           current_price_local = price_local, current_price_jpy = price_jpy,
           exchange_rate = rate, current_value_jpy = value_jpy,
           cost_basis_jpy = cost_basis, pnl_amount = amount,
           pnl_percentage = percentage \<rparr>)"

definition rate_mapping :: "(string \<times> string) list" where
  "rate_mapping =
     [(''USD'', ''USDJPY=X''), (''EUR'', ''EURJPY=X''), (''GBP'', ''GBPJPY=X''),
      (''AUD'', ''AUDJPY=X''), (''CAD'', ''CADJPY=X''), (''CHF'', ''CHFJPY=X'')]"

definition fallback_rates :: "(string \<times> real) list" where
  "fallback_rates =
     [(''USD'', 150), (''EUR'', 160), (''GBP'', 180), (''AUD'', 100), (''CAD'', 110),
      (''CHF'', 165), (''HKD'', 19), (''SGD'', 110), (''CNY'', 21), (''KRW'', 11 / 100)]"

definition get_exchange_rate_for_currency :: "string \<Rightarrow> (string \<rightharpoonup> real) \<Rightarrow> real" where
  "get_exchange_rate_for_currency currency exchange_rates =
     (if currency = ''JPY'' then 1
      else
        let fallback = (case map_of fallback_rates currency of Some r \<Rightarrow> r | None \<Rightarrow> 1)
        in case map_of rate_mapping currency of
             None \<Rightarrow> fallback
           | Some rate_symbol \<Rightarrow>
               (if rate_symbol \<noteq> []
                then (case exchange_rates rate_symbol of Some r \<Rightarrow> r | None \<Rightarrow> fallback)
                else fallback))"

text \<open>A row of the holdings table, and a row of the result of
  \<^verbatim>\<open>calculate_portfolio_pnl\<close>: the dictionary of \<^verbatim>\<open>calculate_pnl\<close> extended with the
  key \<^verbatim>\<open>currency\<close>.\<close>

record holding =
  Ticker :: string
  Shares :: real
  AvgCostJPY :: real

record pnl_row = pnl_result +
  currency :: string

definition portfolio_pnl_row ::
  "(string \<rightharpoonup> real) \<Rightarrow> (string \<rightharpoonup> real) \<Rightarrow> (string \<rightharpoonup> string) \<Rightarrow> holding \<Rightarrow> pnl_row" where
  "portfolio_pnl_row current_prices exchange_rates currency_mapping row =
     (let price_local = (case current_prices (Ticker row) of Some p \<Rightarrow> p | None \<Rightarrow> 0);
          cur = (case currency_mapping (Ticker row) of Some c \<Rightarrow> c | None \<Rightarrow> ''USD'');
          rate = get_exchange_rate_for_currency cur exchange_rates
      in pnl_result.extend
           (calculate_pnl (Ticker row) (Shares row) (AvgCostJPY row) price_local rate)
           (pnl_row.fields cur))"

definition calculate_portfolio_pnl ::
  "holding list \<Rightarrow> (string \<rightharpoonup> real) \<Rightarrow> (string \<rightharpoonup> real) \<Rightarrow> (string \<rightharpoonup> string) \<Rightarrow> pnl_row list" where
  "calculate_portfolio_pnl portfolio current_prices exchange_rates currency_mapping =
     map (portfolio_pnl_row current_prices exchange_rates currency_mapping) portfolio"

section \<open>Data adapter (modules/data\_adapter.py)\<close>

text \<open>The data bundle is the dictionary the adapter wraps; the keys the adapter reads
  are the fields of the record. Historical prices are a price series per ticker and
  company information is a dictionary of text fields per ticker.\<close>

record data_bundle =
  current_prices :: "string \<rightharpoonup> real"
  historical_prices :: "string \<rightharpoonup> real list"
  company_info :: "string \<rightharpoonup> (string \<rightharpoonup> string)"
  exchange_rates :: "string \<rightharpoonup> real"
  currency_mapping :: "string \<rightharpoonup> string"

definition has_sufficient_data :: "data_bundle \<Rightarrow> string \<Rightarrow> bool" where
  "has_sufficient_data bundle tk =
     (let current_price = (case current_prices bundle tk of Some p \<Rightarrow> p | None \<Rightarrow> 0)
      in current_price > 0)"

section \<open>Data loader (modules/data\_loader.py)\<close>

text \<open>
  A pandas table is a list of named columns. A column has a numeric dtype (\<open>NumCol\<close>,
  a missing value NaN is \<open>None\<close>) or the dtype \<^verbatim>\<open>object\<close> (\<open>ObjCol\<close>), whose cells are
  missing, text or numbers. \<^verbatim>\<open>pd.api.types.is_numeric_dtype\<close> is true of the first kind
  only. All columns of a table have the same number of rows and distinct names
  (\<open>wf_frame\<close>).
\<close>

datatype cell = Null | Str string | Num real

datatype column = NumCol "real option list" | ObjCol "cell list"

fun cells :: "column \<Rightarrow> cell list" where
  "cells (NumCol xs) = map (\<lambda>x. case x of None \<Rightarrow> Null | Some v \<Rightarrow> Num v) xs"
| "cells (ObjCol cs) = cs"

type_synonym frame = "(string \<times> column) list"

definition nrows :: "frame \<Rightarrow> nat" where
  "nrows df = (case df of [] \<Rightarrow> 0 | (name, c) # rest \<Rightarrow> length (cells c))"

definition wf_frame :: "frame \<Rightarrow> bool" where
  "wf_frame df = (distinct (map fst df) \<and> list_all (\<lambda>(name, c). length (cells c) = nrows df) df)"

text \<open>\<^verbatim>\<open>df.empty\<close>: one of the two axes has length 0.\<close>

definition df_empty :: "frame \<Rightarrow> bool" where
  "df_empty df = (df = [] \<or> nrows df = 0)"

text \<open>
  The messages appended to \<^verbatim>\<open>errors\<close>, one constructor per message of the source:
  required columns are missing (with their names), the data is empty, a column must be
  numeric, a column must hold positive values, ticker symbols are duplicated (with the
  repeated values), columns contain NaN (with their names).
\<close>

datatype verror =
    MissingColumns "string list"
  | EmptyData
  | NotNumeric string
  | NotPositive string
  | DuplicateTickers "cell list"
  | NullValues "string list"

text \<open>\<^verbatim>\<open>Series.duplicated()\<close>: a position is flagged when its value occurred at an
  earlier position. \<open>select_mask\<close> is selection by a boolean mask.\<close>

fun duplicated_from :: "'a list \<Rightarrow> 'a list \<Rightarrow> bool list" where
  "duplicated_from seen [] = []"
| "duplicated_from seen (x # xs) = (x \<in> set seen) # duplicated_from (x # seen) xs"

definition duplicated :: "'a list \<Rightarrow> bool list" where
  "duplicated xs = duplicated_from [] xs"

definition select_mask :: "bool list \<Rightarrow> 'a list \<Rightarrow> 'a list" where
  "select_mask flags xs = map snd (filter fst (zip flags xs))"

definition any_nonpositive :: "real option list \<Rightarrow> bool" where
  "any_nonpositive xs = list_ex (\<lambda>x. case x of None \<Rightarrow> False | Some v \<Rightarrow> v \<le> 0) xs"

definition numeric_check :: "frame \<Rightarrow> string \<Rightarrow> verror list" where
  "numeric_check df name =
     (case map_of df name of
        None \<Rightarrow> []
      | Some (ObjCol cs) \<Rightarrow> [NotNumeric name]
      | Some (NumCol xs) \<Rightarrow> (if any_nonpositive xs then [NotPositive name] else []))"

definition duplicate_check :: "frame \<Rightarrow> verror list" where
  "duplicate_check df =
     (case map_of df ''Ticker'' of
        None \<Rightarrow> []
      | Some c \<Rightarrow>
          (let duplicates = duplicated (cells c)
           in if list_ex (\<lambda>b. b) duplicates
              then [DuplicateTickers (select_mask duplicates (cells c))] else []))"

definition null_check :: "frame \<Rightarrow> verror list" where
  "null_check df =
     (let null_columns = map fst (filter (\<lambda>(name, c). Null \<in> set (cells c)) df)
      in if null_columns \<noteq> [] then [NullValues null_columns] else [])"

definition missing_check :: "frame \<Rightarrow> verror list" where
  "missing_check df =
     (let missing_columns =
            filter (\<lambda>col. col \<notin> set (map fst df)) [''Ticker'', ''Shares'', ''AvgCostJPY'']
      in if missing_columns \<noteq> [] then [MissingColumns missing_columns] else [])"

definition validate_portfolio_data :: "frame \<Rightarrow> bool \<times> verror list" where
  "validate_portfolio_data df =
     (if df_empty df then (False, missing_check df @ [EmptyData])
      else
        let errors = missing_check df @ numeric_check df ''Shares''
                       @ numeric_check df ''AvgCostJPY'' @ duplicate_check df @ null_check df
        in (errors = [], errors))"

text \<open>
  What the specification's sentences about validation speak of: the dtype of a column,
  a row whose value in a column is a number that is not positive, and the cells of the
  ticker column. The table \<open>mixed_shares_table\<close> has a Shares column of dtype object
  that holds the number -10 and the text abc.
\<close>

definition numeric_dtype :: "frame \<Rightarrow> string \<Rightarrow> bool" where
  "numeric_dtype df name =
     (case map_of df name of Some (NumCol xs) \<Rightarrow> True | _ \<Rightarrow> False)"

definition object_dtype :: "frame \<Rightarrow> string \<Rightarrow> bool" where
  "object_dtype df name =
     (case map_of df name of Some (ObjCol cs) \<Rightarrow> True | _ \<Rightarrow> False)"

definition has_nonpositive :: "frame \<Rightarrow> string \<Rightarrow> bool" where
  "has_nonpositive df name =
     (case map_of df name of
        None \<Rightarrow> False
      | Some c \<Rightarrow> list_ex (\<lambda>x. case x of Num v \<Rightarrow> v \<le> 0 | _ \<Rightarrow> False) (cells c))"

definition ticker_cells :: "frame \<Rightarrow> cell list" where
  "ticker_cells df = (case map_of df ''Ticker'' of None \<Rightarrow> [] | Some c \<Rightarrow> cells c)"

definition mixed_shares_table :: frame where
  "mixed_shares_table =
     [(''Ticker'', ObjCol [Str ''AAPL'', Str ''MSFT'']),
      (''Shares'', ObjCol [Num (- 10), Str ''abc'']),
      (''AvgCostJPY'', NumCol [Some 15000, Some 25000])]"

definition bad_numbers_table :: frame where
  "bad_numbers_table =
     [(''Ticker'', ObjCol [Str ''AAPL'', Str ''AAPL'', Str ''MSFT'']),
      (''Shares'', NumCol [Some (- 10), Some 50, Some 20]),
      (''AvgCostJPY'', NumCol [Some 15000, Some 0, Some 25000])]"

text \<open>
  \<^verbatim>\<open>clean_portfolio_data\<close>. \<open>repr\<close> is the text pandas' \<^verbatim>\<open>astype(str)\<close> gives a cell
  that is not text (a number, a missing value) and \<open>parse\<close> is the conversion
  \<^verbatim>\<open>pd.to_numeric(..., errors='coerce')\<close> applies to a text cell (\<open>None\<close> when the text
  is not a number); both are parameters. Reading a column that the table lacks raises
  \<^verbatim>\<open>KeyError\<close>: the result is \<open>None\<close>.
\<close>

definition astype_str :: "(cell \<Rightarrow> string) \<Rightarrow> cell \<Rightarrow> string" where
  "astype_str repr c = (case c of Str s \<Rightarrow> s | _ \<Rightarrow> repr c)"

fun to_numeric :: "(string \<Rightarrow> real option) \<Rightarrow> column \<Rightarrow> real option list" where
  "to_numeric parse (NumCol xs) = xs"
| "to_numeric parse (ObjCol cs) =
     map (\<lambda>c. case c of Null \<Rightarrow> None | Num v \<Rightarrow> Some v | Str s \<Rightarrow> parse s) cs"

definition set_column :: "frame \<Rightarrow> string \<Rightarrow> column \<Rightarrow> frame" where
  "set_column df name col = map (\<lambda>(n, c). if n = name then (n, col) else (n, c)) df"

fun mask_column :: "bool list \<Rightarrow> column \<Rightarrow> column" where
  "mask_column flags (NumCol xs) = NumCol (select_mask flags xs)"
| "mask_column flags (ObjCol cs) = ObjCol (select_mask flags cs)"

definition mask_rows :: "bool list \<Rightarrow> frame \<Rightarrow> frame" where
  "mask_rows flags df = map (\<lambda>(n, c). (n, mask_column flags c)) df"

definition row_complete :: "frame \<Rightarrow> nat \<Rightarrow> bool" where
  "row_complete df i = list_all (\<lambda>(n, c). cells c ! i \<noteq> Null) df"

definition dropna :: "frame \<Rightarrow> frame" where
  "dropna df = mask_rows (map (row_complete df) [0..<nrows df]) df"

definition drop_duplicates_ticker :: "frame \<Rightarrow> frame" where
  "drop_duplicates_ticker df =
     (case map_of df ''Ticker'' of
        None \<Rightarrow> df
      | Some c \<Rightarrow> mask_rows (map Not (duplicated (cells c))) df)"

definition normalize_columns ::
  "(cell \<Rightarrow> string) \<Rightarrow> (string \<Rightarrow> real option) \<Rightarrow> frame \<Rightarrow> frame option" where
  "normalize_columns repr parse df =
     (case map_of df ''Ticker'' of None \<Rightarrow> None | Some t \<Rightarrow>
        let df1 = set_column df ''Ticker''
                    (ObjCol (map (\<lambda>c. Str (py_upper (py_strip (astype_str repr c)))) (cells t)))
        in case map_of df1 ''Shares'' of None \<Rightarrow> None | Some s \<Rightarrow>
             let df2 = set_column df1 ''Shares'' (NumCol (to_numeric parse s))
             in case map_of df2 ''AvgCostJPY'' of None \<Rightarrow> None | Some a \<Rightarrow>
                  Some (set_column df2 ''AvgCostJPY'' (NumCol (to_numeric parse a))))"

definition clean_portfolio_data ::
  "(cell \<Rightarrow> string) \<Rightarrow> (string \<Rightarrow> real option) \<Rightarrow> frame \<Rightarrow> frame option" where
  "clean_portfolio_data repr parse df =
     map_option (\<lambda>d. drop_duplicates_ticker (dropna d)) (normalize_columns repr parse df)"

text \<open>The cells of row \<open>i\<close>, in column order.\<close>

definition row_at :: "frame \<Rightarrow> nat \<Rightarrow> cell list" where
  "row_at df i = map (\<lambda>(n, c). cells c ! i) df"

text \<open>An uploaded table in need of cleaning, with the text conversions used on it.\<close>

definition dirty_table :: frame where
  "dirty_table =
     [(''Ticker'', ObjCol [Str '' aapl'', Str ''AAPL '', Null, Str ''msft'']),
      (''Shares'', ObjCol [Str ''100'', Num 5, Num 3, Str ''abc'']),
      (''AvgCostJPY'', NumCol [Some 15000, Some 200, Some 1, Some 25000])]"

definition nan_repr :: "cell \<Rightarrow> string" where
  "nan_repr c = ''nan''"

definition parse_100 :: "string \<Rightarrow> real option" where
  "parse_100 s = (if s = ''100'' then Some 100 else None)"

section \<open>Rolling betas (modules/factor\_analysis.py)\<close>

text \<open>
  The portfolio returns are a series indexed by date and the factor data a table indexed
  by date; a date is its ordinal number and NaN is \<open>None\<close>.
  \<^verbatim>\<open>pd.concat([...], axis=1).dropna()\<close> joins the two on the index and keeps the rows in
  which every value is present. When the two indexes are the same the rows are paired
  by position; otherwise pandas reindexes both on the union of the dates, which raises
  when an index has a repeated date (\<open>None\<close>, caught by the function's \<^verbatim>\<open>except\<close>).
\<close>

type_synonym series = "(nat \<times> real option) list"

record factor_frame =
  factor_columns :: "string list"
  factor_rows :: "(nat \<times> real option list) list"

type_synonym joined_row = "nat \<times> real option \<times> real option list"

definition lookup_default :: "('k \<times> 'v) list \<Rightarrow> 'v \<Rightarrow> 'k \<Rightarrow> 'v" where
  "lookup_default kvs d k = (case map_of kvs k of Some v \<Rightarrow> v | None \<Rightarrow> d)"

definition concat_axis1 :: "series \<Rightarrow> factor_frame \<Rightarrow> joined_row list option" where
  "concat_axis1 portfolio_returns factor_data =
     (let pidx = map fst portfolio_returns; fidx = map fst (factor_rows factor_data)
      in if pidx = fidx
         then Some (map (\<lambda>((d, v), (d', fs)). (d, v, fs))
                      (zip portfolio_returns (factor_rows factor_data)))
         else if \<not> distinct pidx \<or> \<not> distinct fidx then None
         else
           let dates = pidx @ filter (\<lambda>d. d \<notin> set pidx) fidx;
               missing = replicate (length (factor_columns factor_data)) None
           in Some (map (\<lambda>d. (d, lookup_default portfolio_returns None d,
                                  lookup_default (factor_rows factor_data) missing d)) dates))"

definition joined_complete :: "joined_row \<Rightarrow> bool" where
  "joined_complete r = (case r of (d, v, fs) \<Rightarrow> v \<noteq> None \<and> list_all (\<lambda>x. x \<noteq> None) fs)"

definition concat_dropna :: "series \<Rightarrow> factor_frame \<Rightarrow> joined_row list option" where
  "concat_dropna portfolio_returns factor_data =
     map_option (filter joined_complete) (concat_axis1 portfolio_returns factor_data)"

text \<open>
  The table of rolling betas: its columns and its rows (date, one beta per column).
  \<^verbatim>\<open>pd.DataFrame()\<close> is \<open>empty_betas\<close>. The regressions that follow the length guard
  (the rolling least-squares fit of the statistics library, or the loop over windows
  with the built-in solver) are the parameter \<open>fit\<close>, which is given the factor columns,
  the joined rows and the window and yields \<open>None\<close> when it raises.
\<close>

record betas_frame =
  betas_columns :: "string list"
  betas_rows :: "(nat \<times> real option list) list"

definition empty_betas :: betas_frame where
  "empty_betas = \<lparr> betas_columns = [], betas_rows = [] \<rparr>"

definition calculate_rolling_betas ::
  "(string list \<Rightarrow> joined_row list \<Rightarrow> int \<Rightarrow> betas_frame option)
     \<Rightarrow> series \<Rightarrow> factor_frame \<Rightarrow> int \<Rightarrow> betas_frame" where
  "calculate_rolling_betas fit portfolio_returns factor_data window =
     (case concat_dropna portfolio_returns factor_data of
        None \<Rightarrow> empty_betas
      | Some df \<Rightarrow>
          if int (length df) < window then empty_betas
          else (case fit (factor_columns factor_data) df window of
                  None \<Rightarrow> empty_betas
                | Some rolling_betas \<Rightarrow> rolling_betas))"

text \<open>The default \<^verbatim>\<open>window=21\<close>.\<close>

definition calculate_rolling_betas_default ::
  "(string list \<Rightarrow> joined_row list \<Rightarrow> int \<Rightarrow> betas_frame option)
     \<Rightarrow> series \<Rightarrow> factor_frame \<Rightarrow> betas_frame" where
  "calculate_rolling_betas_default fit portfolio_returns factor_data =
     calculate_rolling_betas fit portfolio_returns factor_data 21"

text \<open>
  A short history: four dated returns (one of them missing) against a factor table whose
  dates only partly agree, and a fit that answers with one row of betas per joined row.
\<close>

definition short_returns :: series where
  "short_returns = [(1, Some (1 / 100)), (2, Some (- (2 / 100))), (3, None), (4, Some (5 / 1000))]"

definition short_factors :: factor_frame where
  "short_factors =
     \<lparr> factor_columns = [''Mkt-RF'', ''RF''],
       factor_rows = [(1, [Some (3 / 1000), Some (1 / 10000)]),
                      (2, [Some (- (1 / 100)), Some (1 / 10000)]),
                      (3, [Some (2 / 1000), Some (1 / 10000)]),
                      (5, [Some (4 / 1000), Some (1 / 10000)])] \<rparr>"

definition echo_fit :: "string list \<Rightarrow> joined_row list \<Rightarrow> int \<Rightarrow> betas_frame option" where
  "echo_fit cols df window =
     Some \<lparr> betas_columns = cols, betas_rows = map (\<lambda>(d, v, fs). (d, fs)) df \<rparr>"

section \<open>Risk calculator (modules/risk\_calculator.py)\<close>

text \<open>
  A returns table is the list of its columns, one complete column of daily returns per
  ticker; the weights are a vector. Numbers are exact reals, and a result that pandas or
  numpy report as NaN is \<open>None\<close>: the sample covariance of fewer than two observations
  (\<^verbatim>\<open>ddof=1\<close>) and the square root of a negative number. A comparison with NaN is
  false. A function of the source that returns the empty dictionary, directly or from
  its \<^verbatim>\<open>except\<close> branch, returns \<open>None\<close> (or the empty map) here.
\<close>

definition mean_of :: "real list \<Rightarrow> real" where
  "mean_of xs = sum_list xs / real (length xs)"

definition cov_entry :: "real list \<Rightarrow> real list \<Rightarrow> real" where
  "cov_entry xs ys =
     sum_list (map2 (\<lambda>x y. (x - mean_of xs) * (y - mean_of ys)) xs ys) / real (length xs - 1)"

definition table_rows :: "real list list \<Rightarrow> nat" where
  "table_rows returns = (case returns of [] \<Rightarrow> 0 | col # rest \<Rightarrow> length col)"

definition returns_empty :: "real list list \<Rightarrow> bool" where
  "returns_empty returns = (returns = [] \<or> table_rows returns = 0)"

definition cov_matrix :: "real list list \<Rightarrow> real list list option" where
  "cov_matrix returns =
     (if table_rows returns < 2 then None
      else Some (map (\<lambda>xs. map (\<lambda>ys. cov_entry xs ys) returns) returns))"

definition py_sqrt :: "real \<Rightarrow> real option" where
  "py_sqrt x = (if x < 0 then None else Some (sqrt x))"

definition std_of :: "real list \<Rightarrow> real option" where
  "std_of xs = (if length xs < 2 then None else py_sqrt (cov_entry xs xs))"

definition dot_product :: "real list \<Rightarrow> real list \<Rightarrow> real" where
  "dot_product xs ys = sum_list (map2 (\<lambda>x y. x * y) xs ys)"

definition matvec :: "real list list \<Rightarrow> real list \<Rightarrow> real list" where
  "matvec m v = map (\<lambda>row. dot_product row v) m"

record risk_contribution_result =
  rc_tickers :: "string list"
  rc_weights :: "real list"
  marginal_risk :: "real list"
  risk_contribution :: "real list"
  risk_contribution_pct :: "real list"
  rc_portfolio_volatility :: "real option"

definition zeros_like :: "real list \<Rightarrow> real list" where
  "zeros_like weights = map (\<lambda>w. 0) weights"

text \<open>\<^verbatim>\<open>np.dot\<close> raises when the weight vector does not have one entry per column; the
  \<^verbatim>\<open>except\<close> branch then returns the empty dictionary.\<close>

definition calculate_risk_contribution ::
  "string list \<Rightarrow> real list list \<Rightarrow> real list \<Rightarrow> risk_contribution_result option" where
  "calculate_risk_contribution tickers returns weights =
     (if returns_empty returns \<or> weights = [] then None
      else if length weights \<noteq> length returns then None
      else
        let variance_vol =
              (case cov_matrix returns of
                 None \<Rightarrow> None
               | Some daily_cov_matrix \<Rightarrow>
                   (let v = dot_product weights (matvec daily_cov_matrix weights)
                    in case py_sqrt v of
                         None \<Rightarrow> None
                       | Some vol \<Rightarrow> Some (daily_cov_matrix, v, vol)))
        in case variance_vol of
             None \<Rightarrow>
               Some \<lparr> rc_tickers = tickers, rc_weights = weights,
                      marginal_risk = zeros_like weights,
                      risk_contribution = map2 (\<lambda>w m. w * m) weights (zeros_like weights),
                      risk_contribution_pct = zeros_like weights,
                      rc_portfolio_volatility = None \<rparr>
           | Some (daily_cov_matrix, daily_portfolio_variance, daily_portfolio_volatility) \<Rightarrow>
               let marginal =
                     (if daily_portfolio_volatility > 0
                      then map (\<lambda>x. x / daily_portfolio_volatility)
                             (matvec daily_cov_matrix weights)
                      else zeros_like weights);
                   contribution = map2 (\<lambda>w m. w * m) weights marginal;
                   pct = (if daily_portfolio_variance > 0
                          then map (\<lambda>x. x / daily_portfolio_variance * 100) contribution
                          else zeros_like weights)
               in Some \<lparr> rc_tickers = tickers, rc_weights = weights,
                         marginal_risk = marginal, risk_contribution = contribution,
                         risk_contribution_pct = pct,
                         rc_portfolio_volatility = Some daily_portfolio_volatility \<rparr>)"

text \<open>
  \<^verbatim>\<open>calculate_portfolio_risk\<close>. The record holds the entries of the returned dictionary
  that the volatility and the diversification ratio are made of; the correlation matrix
  and the average correlation, which nothing else in the function reads, are left out.
  \<^verbatim>\<open>(daily_individual_volatilities * weights).sum()\<close> skips NaN products.
\<close>

record portfolio_risk =
  portfolio_volatility :: "real option"
  covariance_matrix :: "real list list option"
  individual_volatilities :: "real option list"
  weighted_avg_volatility :: real
  diversification_ratio :: real

definition weighted_sum_skipna :: "real option list \<Rightarrow> real list \<Rightarrow> real" where
  "weighted_sum_skipna vols weights =
     sum_list (map2 (\<lambda>v w. case v of None \<Rightarrow> 0 | Some s \<Rightarrow> s * w) vols weights)"

definition calculate_portfolio_risk ::
  "real list list \<Rightarrow> real list \<Rightarrow> portfolio_risk option" where
  "calculate_portfolio_risk returns weights =
     (if returns_empty returns \<or> weights = [] then None
      else if length weights \<noteq> length returns then None
      else
        let daily_cov_matrix = cov_matrix returns;
            daily_portfolio_volatility =
              (case daily_cov_matrix of
                 None \<Rightarrow> None
               | Some c \<Rightarrow> py_sqrt (dot_product weights (matvec c weights)));
            daily_individual_volatilities = map std_of returns;
            weighted_avg_vol = weighted_sum_skipna daily_individual_volatilities weights;
            ratio = (case daily_portfolio_volatility of
                       None \<Rightarrow> 1
                     | Some vol \<Rightarrow> if vol > 0 then weighted_avg_vol / vol else 1)
        in Some \<lparr> portfolio_volatility = daily_portfolio_volatility,
                  covariance_matrix = daily_cov_matrix,
                  individual_volatilities = daily_individual_volatilities,
                  weighted_avg_volatility = weighted_avg_vol,
                  diversification_ratio = ratio \<rparr>)"

text \<open>
  A return series may hold missing values (\<open>None\<close>). \<^verbatim>\<open>Series.std()\<close> skips them and is
  NaN when fewer than two values remain.
\<close>

definition dropna_values :: "real option list \<Rightarrow> real list" where
  "dropna_values xs = concat (map (\<lambda>x. case x of None \<Rightarrow> [] | Some v \<Rightarrow> [v]) xs)"










text \<open>Three days of returns of one thirty-second down, flat and up.\<close>

definition swing :: "real list" where
  "swing = [- (1 / 32), 0, 1 / 32]"

section \<open>Verified properties\<close>

subsection \<open>Currency mapper\<close>

text \<open>The four tickers the specification singles out resolve as it says.\<close>

lemma currency_examples:
  "get_currency_from_ticker ''7203.T'' = ''JPY'' \<and> get_currency_from_ticker ''AAPL'' = ''USD''
   \<and> get_currency_from_ticker ''ASML.AS'' = ''EUR'' \<and> get_currency_from_ticker ''HSBA.L'' = ''GBP''"
  by code_simp

text \<open>
  Claim C1. The currency is said to follow the ordered suffix table, in which \<open>.TO\<close>
  (with \<open>.V\<close> and \<open>.CN\<close>) belongs to CAD. The function tests \<^verbatim>\<open>suffix in ticker\<close>,
  a substring test, and tests \<open>.T\<close> before \<open>.TO\<close>; every ticker that ends in \<open>.TO\<close>
  contains \<open>.T\<close>, so the Toronto ticker \<open>RY.TO\<close> is resolved to JPY and the \<open>.TO\<close>
  entry of the function's own Canadian list is never reached.
\<close>

theorem toronto_ticker_resolves_to_jpy:
  "get_currency_from_ticker ''RY.TO'' = ''JPY'' \<and> get_currency_from_ticker ''RY.TO'' \<noteq> ''CAD''"
  by code_simp

subsection \<open>Single-position profit and loss\<close>

text \<open>
  Claim C2. \<open>calculate_pnl\<close> returns currentPriceJPY = currentPriceLocal * fxRate,
  currentValueJPY = currentPriceJPY * shares, costBasisJPY = avgCostJPY * shares,
  pnlAmount = currentValueJPY - costBasisJPY, and pnlPercentage =
  pnlAmount / costBasisJPY * 100 when costBasisJPY is positive and 0 otherwise. For
  (AAPL, 100, 15000, 200, 150) the values are 30000, 3000000, 1500000, 1500000 and 100.
  With a current local price of 0 and positive shares and average cost the result still
  has pnlPercentage = -100 and pnlAmount = -costBasisJPY; the model is a total function,
  so a result is always returned.
\<close>

theorem calculate_pnl_spec:
  "(let r = calculate_pnl tk sh ac pl fx in
      current_price_jpy r = pl * fx
    \<and> current_value_jpy r = current_price_jpy r * sh
    \<and> cost_basis_jpy r = ac * sh
    \<and> pnl_amount r = current_value_jpy r - cost_basis_jpy r
    \<and> pnl_percentage r =
        (if cost_basis_jpy r > 0 then pnl_amount r / cost_basis_jpy r * 100 else 0))
   \<and> (let r = calculate_pnl ''AAPL'' 100 15000 200 150 in
      current_price_jpy r = 30000 \<and> current_value_jpy r = 3000000
    \<and> cost_basis_jpy r = 1500000 \<and> pnl_amount r = 1500000 \<and> pnl_percentage r = 100)
   \<and> (0 < sh \<and> 0 < ac \<longrightarrow>
       (let r = calculate_pnl tk sh ac 0 fx in
          pnl_percentage r = - 100 \<and> pnl_amount r = - cost_basis_jpy r))"
  by (simp add: calculate_pnl_def Let_def)

theorem calculate_pnl_spec_witness:
  "(0::real) < 100 \<and> (0::real) < 15000
   \<and> pnl_percentage (calculate_pnl ''AAPL'' 100 15000 0 150) = - 100
   \<and> pnl_amount (calculate_pnl ''AAPL'' 100 15000 0 150) = - 1500000
   \<and> cost_basis_jpy (calculate_pnl ''AAPL'' 100 15000 0 150) = 1500000"
  using calculate_pnl_spec [of "''AAPL''" 100 15000 0 150] by (simp add: Let_def)

subsection \<open>Data adapter\<close>

text \<open>
  Claim C9. \<open>has_sufficient_data\<close> is true exactly when the bundle's current-price
  map holds a strictly positive price for the ticker, and it reads nothing else:
  replacing the historical prices and the company information leaves the answer
  unchanged.
\<close>

theorem has_sufficient_data_iff:
  "has_sufficient_data bundle tk = (\<exists>p. current_prices bundle tk = Some p \<and> 0 < p)
   \<and> has_sufficient_data (bundle\<lparr>historical_prices := h, company_info := ci\<rparr>) tk
       = has_sufficient_data bundle tk"
  by (simp add: has_sufficient_data_def Let_def split: option.split)

subsection \<open>Exchange-rate resolution\<close>

text \<open>
  Claim C10. \<open>get_exchange_rate_for_currency\<close> returns 1 for JPY, and 1 for every
  currency that is in neither the pair-symbol table nor the static fallback table,
  whatever the supplied rates are. INR, BRL, MXN, ZAR, RUB and TRY are such currencies,
  and the currency mapper produces each of them. Hence every row that
  \<open>calculate_portfolio_pnl\<close> computes for such a currency carries rate 1: its JPY price
  is its local price.
\<close>

theorem unlisted_currency_rate_is_one:
  "get_exchange_rate_for_currency ''JPY'' rates = 1
   \<and> (map_of rate_mapping cur = None \<and> map_of fallback_rates cur = None
        \<longrightarrow> get_exchange_rate_for_currency cur rates = 1)
   \<and> (\<forall>c \<in> set [''INR'', ''BRL'', ''MXN'', ''ZAR'', ''RUB'', ''TRY''].
         map_of rate_mapping c = None \<and> map_of fallback_rates c = None
         \<and> get_exchange_rate_for_currency c rates = 1)
   \<and> map get_currency_from_ticker
        [''RELIANCE.NS'', ''PETR4.SA'', ''WALMEX.MX'', ''NPN.JO'', ''SBER.ME'', ''THYAO.IS'']
      = [''INR'', ''BRL'', ''MXN'', ''ZAR'', ''RUB'', ''TRY'']
   \<and> (\<forall>r \<in> set (calculate_portfolio_pnl portfolio prices rates cmap).
         map_of rate_mapping (currency r) = None \<and> map_of fallback_rates (currency r) = None
         \<longrightarrow> exchange_rate r = 1 \<and> current_price_jpy r = current_price_local r
             \<and> current_value_jpy r = current_price_local r * shares r)"
proof -
  have jpy: "get_exchange_rate_for_currency ''JPY'' rates = 1"
    by (simp add: get_exchange_rate_for_currency_def)
  have unlisted: "get_exchange_rate_for_currency c rs = 1"
    if "map_of rate_mapping c = None" "map_of fallback_rates c = None" for c rs
    using that by (simp add: get_exchange_rate_for_currency_def)
  have six: "\<forall>c \<in> set [''INR'', ''BRL'', ''MXN'', ''ZAR'', ''RUB'', ''TRY''].
         map_of rate_mapping c = None \<and> map_of fallback_rates c = None
         \<and> get_exchange_rate_for_currency c rates = 1"
    by (simp add: get_exchange_rate_for_currency_def rate_mapping_def fallback_rates_def)
  have mapper: "map get_currency_from_ticker
        [''RELIANCE.NS'', ''PETR4.SA'', ''WALMEX.MX'', ''NPN.JO'', ''SBER.ME'', ''THYAO.IS'']
      = [''INR'', ''BRL'', ''MXN'', ''ZAR'', ''RUB'', ''TRY'']"
    by code_simp
  have row: "exchange_rate r = 1 \<and> current_price_jpy r = current_price_local r
             \<and> current_value_jpy r = current_price_local r * shares r"
    if r: "r \<in> set (calculate_portfolio_pnl portfolio prices rates cmap)"
      and u: "map_of rate_mapping (currency r) = None" "map_of fallback_rates (currency r) = None"
    for r
  proof -
    from r obtain h where h: "r = portfolio_pnl_row prices rates cmap h"
      by (auto simp: calculate_portfolio_pnl_def)
    define cur where "cur = (case cmap (Ticker h) of Some c \<Rightarrow> c | None \<Rightarrow> ''USD'')"
    have c: "currency r = cur"
      by (simp add: h portfolio_pnl_row_def Let_def cur_def pnl_result.extend_def
          pnl_row.fields_def calculate_pnl_def)
    have "get_exchange_rate_for_currency cur rates = 1"
      using unlisted u c by simp
    then show ?thesis
      by (simp add: h portfolio_pnl_row_def Let_def cur_def pnl_result.extend_def
          pnl_row.fields_def calculate_pnl_def)
  qed
  show ?thesis using jpy unlisted six mapper row by blast
qed

theorem unlisted_currency_rate_is_one_witness:
  "map_of rate_mapping ''INR'' = None \<and> map_of fallback_rates ''INR'' = None
   \<and> get_exchange_rate_for_currency ''INR'' [''USDJPY=X'' \<mapsto> 150] = 1
   \<and> (let out = calculate_portfolio_pnl
                  [\<lparr>Ticker = ''RELIANCE.NS'', Shares = 10, AvgCostJPY = 4000\<rparr>]
                  [''RELIANCE.NS'' \<mapsto> 2500] [''USDJPY=X'' \<mapsto> 150]
                  [''RELIANCE.NS'' \<mapsto> ''INR'']
       in out \<noteq> [] \<and> (\<forall>r \<in> set out. currency r = ''INR'' \<and> exchange_rate r = 1
                          \<and> current_price_local r = 2500 \<and> current_price_jpy r = 2500))"
proof -
  let ?out = "calculate_portfolio_pnl
                  [\<lparr>Ticker = ''RELIANCE.NS'', Shares = 10, AvgCostJPY = 4000\<rparr>]
                  [''RELIANCE.NS'' \<mapsto> 2500] [''USDJPY=X'' \<mapsto> 150]
                  [''RELIANCE.NS'' \<mapsto> ''INR'']"
  have u: "map_of rate_mapping ''INR'' = None \<and> map_of fallback_rates ''INR'' = None"
    by (simp add: rate_mapping_def fallback_rates_def)
  have shape: "?out \<noteq> [] \<and> (\<forall>r \<in> set ?out. currency r = ''INR'' \<and> current_price_local r = 2500)"
    by (simp add: calculate_portfolio_pnl_def portfolio_pnl_row_def Let_def
        pnl_result.extend_def pnl_row.fields_def calculate_pnl_def)
  note t = unlisted_currency_rate_is_one [of "[''USDJPY=X'' \<mapsto> 150]" "''INR''"
      "[\<lparr>Ticker = ''RELIANCE.NS'', Shares = 10, AvgCostJPY = 4000\<rparr>]"
      "[''RELIANCE.NS'' \<mapsto> 2500]" "[''RELIANCE.NS'' \<mapsto> ''INR'']"]
  from t u have r1: "get_exchange_rate_for_currency ''INR'' [''USDJPY=X'' \<mapsto> 150] = 1"
    by blast
  from t have "\<forall>r \<in> set ?out.
         map_of rate_mapping (currency r) = None \<and> map_of fallback_rates (currency r) = None
         \<longrightarrow> exchange_rate r = 1 \<and> current_price_jpy r = current_price_local r
             \<and> current_value_jpy r = current_price_local r * shares r" by blast
  with shape u have "\<forall>r \<in> set ?out. currency r = ''INR'' \<and> exchange_rate r = 1
                          \<and> current_price_local r = 2500 \<and> current_price_jpy r = 2500"
    by auto
  with u r1 shape show ?thesis by (simp add: Let_def)
qed

subsection \<open>Text normalisation\<close>

lemma upper_char_idem: "upper_char (upper_char c) = upper_char c"
  by (auto simp: upper_char_def Let_def)

lemma is_space_upper_char: "is_space (upper_char c) = is_space c"
  by (auto simp: upper_char_def is_space_def Let_def)

lemma py_upper_idem: "py_upper (py_upper s) = py_upper s"
  by (simp add: py_upper_def upper_char_idem)

lemma dropWhile_space_upper:
  "dropWhile is_space (py_upper s) = py_upper (dropWhile is_space s)"
  by (induction s) (simp_all add: py_upper_def is_space_upper_char)

lemma py_upper_rev: "py_upper (rev s) = rev (py_upper s)"
  by (simp add: py_upper_def rev_map)

lemma py_strip_upper: "py_strip (py_upper s) = py_upper (py_strip s)"
  by (simp add: py_strip_def dropWhile_space_upper py_upper_rev [symmetric])

lemma dropWhile_strip_front: "dropWhile is_space (py_strip s) = py_strip s"
proof -
  define t where "t = dropWhile is_space s"
  define u where "u = rev (dropWhile is_space (rev t))"
  have tu: "t = u @ rev (takeWhile is_space (rev t))"
    by (metis rev_append rev_rev_ident takeWhile_dropWhile_id u_def)
  show ?thesis
  proof (cases u)
    case Nil
    then show ?thesis by (simp add: py_strip_def t_def [symmetric] u_def [symmetric])
  next
    case (Cons a list)
    from tu Cons obtain r where "t = a # r" by (metis append_Cons)
    then have "hd t = a" "t \<noteq> []" by simp_all
    then have "\<not> is_space a"
      using hd_dropWhile [of is_space s] by (simp add: t_def)
    then show ?thesis
      by (simp add: py_strip_def t_def [symmetric] u_def [symmetric] Cons)
  qed
qed

lemma py_strip_idem: "py_strip (py_strip s) = py_strip s"
proof -
  have "py_strip (py_strip s) = rev (dropWhile is_space (rev (py_strip s)))"
    by (simp add: py_strip_def [of "py_strip s"] dropWhile_strip_front)
  also have "\<dots> = py_strip s"
    by (simp add: py_strip_def dropWhile_idem)
  finally show ?thesis .
qed

lemma normalized_ticker:
  "py_upper (py_upper (py_strip s)) = py_upper (py_strip s)
   \<and> py_strip (py_upper (py_strip s)) = py_upper (py_strip s)"
  by (simp add: py_upper_idem py_strip_upper py_strip_idem)

subsection \<open>Masks and duplicates\<close>

lemma duplicated_from_any:
  "list_ex (\<lambda>b. b) (duplicated_from seen xs) \<longleftrightarrow> \<not> (distinct xs \<and> set xs \<inter> set seen = {})"
  by (induction xs arbitrary: seen) auto

lemma duplicated_any: "list_ex (\<lambda>b. b) (duplicated xs) \<longleftrightarrow> \<not> distinct xs"
  by (simp add: duplicated_def duplicated_from_any)

lemma length_duplicated_from: "length (duplicated_from seen xs) = length xs"
  by (induction xs arbitrary: seen) auto

lemma length_duplicated: "length (duplicated xs) = length xs"
  by (simp add: duplicated_def length_duplicated_from)

lemma duplicated_from_nth:
  "i < length xs \<Longrightarrow> duplicated_from seen xs ! i \<longleftrightarrow> xs ! i \<in> set seen \<union> set (take i xs)"
proof (induction xs arbitrary: seen i)
  case Nil
  then show ?case by simp
next
  case (Cons x xs)
  show ?case
  proof (cases i)
    case 0
    then show ?thesis by simp
  next
    case (Suc j)
    with Cons.prems have "j < length xs" by simp
    from Cons.IH [OF this, of "x # seen"] Suc show ?thesis by auto
  qed
qed

lemma duplicated_nth:
  "i < length xs \<Longrightarrow> duplicated xs ! i \<longleftrightarrow> xs ! i \<in> set (take i xs)"
  by (simp add: duplicated_def duplicated_from_nth)

lemma select_mask_Nil [simp]: "select_mask [] xs = []" "select_mask flags [] = []"
  by (simp_all add: select_mask_def)

lemma select_mask_Cons [simp]:
  "select_mask (b # flags) (x # xs) = (if b then x # select_mask flags xs else select_mask flags xs)"
  by (simp add: select_mask_def)

lemma set_select_mask: "set (select_mask flags xs) \<subseteq> set xs"
  by (auto simp: select_mask_def dest: set_zip_rightD)

lemma select_mask_map: "select_mask flags (map f xs) = map f (select_mask flags xs)"
proof (induction flags arbitrary: xs)
  case Nil
  then show ?case by simp
next
  case (Cons b flags)
  then show ?case by (cases xs) auto
qed

lemma select_mask_indices:
  "length xs = length flags \<Longrightarrow>
   select_mask flags xs = map (\<lambda>i. xs ! i) (select_mask flags [0..<length flags])"
proof -
  assume len: "length xs = length flags"
  have "xs = map (\<lambda>i. xs ! i) [0..<length flags]"
    using len by (metis map_nth)
  then have "select_mask flags xs = select_mask flags (map (\<lambda>i. xs ! i) [0..<length flags])"
    by simp
  then show ?thesis by (simp only: select_mask_map)
qed

lemma select_mask_index_props:
  "i \<in> set (select_mask flags [0..<length flags]) \<Longrightarrow> i < length flags \<and> flags ! i"
proof -
  assume "i \<in> set (select_mask flags [0..<length flags])"
  then obtain b where m: "(b, i) \<in> set (zip flags [0..<length flags])" and b: b
    by (auto simp: select_mask_def)
  from m obtain k where k: "k < length flags" "flags ! k = b" "[0..<length flags] ! k = i"
    by (auto simp: in_set_zip)
  then show ?thesis using b by simp
qed

lemma select_mask_elem:
  assumes "length xs = length flags" "x \<in> set (select_mask flags xs)"
  shows "\<exists>i < length flags. flags ! i \<and> x = xs ! i"
proof -
  from assms obtain i where "i \<in> set (select_mask flags [0..<length flags])" "x = xs ! i"
    using select_mask_indices [OF assms(1)] by auto
  then show ?thesis using select_mask_index_props by blast
qed

lemma select_not_duplicated_from:
  "distinct (select_mask (map Not (duplicated_from seen xs)) xs)
   \<and> set (select_mask (map Not (duplicated_from seen xs)) xs) = set xs - set seen"
proof (induction xs arbitrary: seen)
  case Nil
  then show ?case by simp
next
  case (Cons x xs)
  from Cons [of "x # seen"] show ?case by auto
qed

lemma select_not_duplicated:
  "distinct (select_mask (map Not (duplicated xs)) xs)"
  "set (select_mask (map Not (duplicated xs)) xs) = set xs"
  using select_not_duplicated_from [of "[]" xs] by (simp_all add: duplicated_def)

lemma cells_mask_column: "cells (mask_column flags c) = select_mask flags (cells c)"
  by (cases c) (simp_all add: select_mask_map)

subsection \<open>Tables\<close>

lemma wf_frame_length:
  "wf_frame df \<Longrightarrow> (n, c) \<in> set df \<Longrightarrow> length (cells c) = nrows df"
  by (auto simp: wf_frame_def list_all_iff)

lemma wf_frameI:
  assumes "distinct (map fst df)" "\<forall>p \<in> set df. length (cells (snd p)) = N"
  shows "wf_frame df" "df \<noteq> [] \<Longrightarrow> nrows df = N"
proof -
  show n: "df \<noteq> [] \<Longrightarrow> nrows df = N"
    using assms(2) by (cases df) (auto simp: nrows_def)
  show "wf_frame df"
  proof (cases "df = []")
    case True
    then show ?thesis by (simp add: wf_frame_def)
  next
    case False
    with n assms show ?thesis by (auto simp: wf_frame_def list_all_iff)
  qed
qed

lemma map_of_wf: "map_of df n = Some c \<Longrightarrow> (n, c) \<in> set df"
  by (rule map_of_SomeD)

lemma fst_set_column [simp]: "map fst (set_column df name col) = map fst df"
  by (induction df) (auto simp: set_column_def)

lemma set_column_Cons:
  "set_column ((n, c) # df) name col =
     (if n = name then (n, col) else (n, c)) # set_column df name col"
  by (simp add: set_column_def)

lemma map_of_set_column_same:
  "name \<in> set (map fst df) \<Longrightarrow> map_of (set_column df name col) name = Some col"
proof (induction df)
  case Nil
  then show ?case by simp
next
  case (Cons p df)
  obtain n c where p: "p = (n, c)" by (cases p)
  show ?case
  proof (cases "n = name")
    case True
    then show ?thesis by (simp add: p set_column_Cons)
  next
    case False
    with Cons.prems have "name \<in> set (map fst df)" by (simp add: p)
    from Cons.IH [OF this] False show ?thesis by (simp add: p set_column_Cons)
  qed
qed

lemma map_of_set_column_other:
  "k \<noteq> name \<Longrightarrow> map_of (set_column df name col) k = map_of df k"
proof (induction df)
  case Nil
  then show ?case by (simp add: set_column_def)
next
  case (Cons p df)
  obtain n c where p: "p = (n, c)" by (cases p)
  from Cons show ?case by (simp add: p set_column_Cons)
qed

lemma set_column_mem:
  "(n, c) \<in> set (set_column df name col) \<Longrightarrow> (n = name \<and> c = col) \<or> (n, c) \<in> set df"
  by (auto simp: set_column_def split: if_splits)

lemma wf_set_column:
  assumes "wf_frame df" "length (cells col) = nrows df"
  shows "wf_frame (set_column df name col)" "nrows (set_column df name col) = nrows df"
proof -
  have d: "distinct (map fst (set_column df name col))" using assms(1) by (simp add: wf_frame_def)
  have l: "\<forall>p \<in> set (set_column df name col). length (cells (snd p)) = nrows df"
  proof
    fix p assume "p \<in> set (set_column df name col)"
    then have "(fst p, snd p) \<in> set (set_column df name col)" by simp
    from set_column_mem [OF this] show "length (cells (snd p)) = nrows df"
    proof
      assume "fst p = name \<and> snd p = col"
      then show ?thesis using assms(2) by simp
    next
      assume "(fst p, snd p) \<in> set df"
      then show ?thesis by (rule wf_frame_length [OF assms(1)])
    qed
  qed
  show "wf_frame (set_column df name col)" by (rule wf_frameI(1) [OF d l])
  show "nrows (set_column df name col) = nrows df"
  proof (cases "df = []")
    case True
    then show ?thesis by (simp add: set_column_def)
  next
    case False
    then have "set_column df name col \<noteq> []" by (simp add: set_column_def)
    then show ?thesis by (rule wf_frameI(2) [OF d l])
  qed
qed

lemma fst_mask_rows [simp]: "map fst (mask_rows flags df) = map fst df"
  by (induction df) (auto simp: mask_rows_def)

lemma map_of_mask_rows:
  "map_of (mask_rows flags df) k = map_option (mask_column flags) (map_of df k)"
  by (induction df) (auto simp: mask_rows_def)

lemma mask_rows_mem:
  "(n, c) \<in> set (mask_rows flags df) \<Longrightarrow> \<exists>c0. (n, c0) \<in> set df \<and> c = mask_column flags c0"
  by (auto simp: mask_rows_def)

lemma length_select_mask_filter:
  "length xs = length flags \<Longrightarrow>
   length (select_mask flags xs) = length (filter (\<lambda>b. b) flags)"
proof (induction flags arbitrary: xs)
  case Nil
  then show ?case by simp
next
  case (Cons b flags)
  then obtain y ys where xs: "xs = y # ys" by (cases xs) auto
  with Cons.prems have "length ys = length flags" by simp
  from Cons.IH [OF this] show ?case by (simp add: xs)
qed

lemma length_select_mask:
  "length xs = length flags \<Longrightarrow>
   length (select_mask flags xs) = length (select_mask flags [0..<length flags])"
  by (simp add: length_select_mask_filter)

lemma wf_mask_rows:
  assumes "wf_frame df" "length flags = nrows df"
  shows "wf_frame (mask_rows flags df)"
    and "df \<noteq> [] \<Longrightarrow> nrows (mask_rows flags df) = length (select_mask flags [0..<length flags])"
proof -
  have d: "distinct (map fst (mask_rows flags df))" using assms(1) by (simp add: wf_frame_def)
  have l: "\<forall>p \<in> set (mask_rows flags df).
             length (cells (snd p)) = length (select_mask flags [0..<length flags])"
  proof
    fix p assume "p \<in> set (mask_rows flags df)"
    then have "(fst p, snd p) \<in> set (mask_rows flags df)" by simp
    from mask_rows_mem [OF this] obtain c0 where
      c0: "(fst p, c0) \<in> set df" "snd p = mask_column flags c0" by blast
    then have "length (cells c0) = length flags"
      using assms wf_frame_length by simp
    then show "length (cells (snd p)) = length (select_mask flags [0..<length flags])"
      by (simp add: c0 cells_mask_column length_select_mask_filter)
  qed
  show "wf_frame (mask_rows flags df)" by (rule wf_frameI(1) [OF d l])
  show "df \<noteq> [] \<Longrightarrow> nrows (mask_rows flags df) = length (select_mask flags [0..<length flags])"
  proof -
    assume "df \<noteq> []"
    then have "mask_rows flags df \<noteq> []" by (simp add: mask_rows_def)
    then show ?thesis by (rule wf_frameI(2) [OF d l])
  qed
qed

lemma row_at_mask_rows:
  assumes "wf_frame df" "length flags = nrows df"
    and "j < length (select_mask flags [0..<length flags])"
  shows "row_at (mask_rows flags df) j = row_at df (select_mask flags [0..<length flags] ! j)"
proof -
  have "\<forall>p \<in> set df. cells (mask_column flags (snd p)) ! j
          = cells (snd p) ! (select_mask flags [0..<length flags] ! j)"
  proof
    fix p assume "p \<in> set df"
    then have "length (cells (snd p)) = length flags"
      using wf_frame_length [OF assms(1), of "fst p" "snd p"] assms(2) by simp
    from select_mask_indices [OF this]
    have "select_mask flags (cells (snd p)) ! j
            = map (\<lambda>i. cells (snd p) ! i) (select_mask flags [0..<length flags]) ! j"
      by (rule arg_cong)
    also have "\<dots> = cells (snd p) ! (select_mask flags [0..<length flags] ! j)"
      using assms(3) by (rule nth_map)
    finally show "cells (mask_column flags (snd p)) ! j
          = cells (snd p) ! (select_mask flags [0..<length flags] ! j)"
      by (simp only: cells_mask_column)
  qed
  then show ?thesis
    by (simp add: row_at_def mask_rows_def case_prod_beta)
qed

lemma dropna_no_null:
  assumes "wf_frame df" "(n, c) \<in> set (dropna df)"
  shows "Null \<notin> set (cells c)"
proof
  assume nul: "Null \<in> set (cells c)"
  let ?flags = "map (row_complete df) [0..<nrows df]"
  from assms(2) obtain c0 where c0: "(n, c0) \<in> set df" "c = mask_column ?flags c0"
    unfolding dropna_def by (blast dest: mask_rows_mem)
  have len: "length (cells c0) = length ?flags"
    using assms(1) c0(1) wf_frame_length by simp
  from nul have "Null \<in> set (select_mask ?flags (cells c0))"
    by (simp add: c0 cells_mask_column)
  from select_mask_elem [OF len this] obtain i where
    i: "i < nrows df" "row_complete df i" "Null = cells c0 ! i" by auto
  from i(2) c0(1) have "cells c0 ! i \<noteq> Null"
    by (auto simp: row_complete_def list_all_iff)
  with i(3) show False by simp
qed

lemma wf_dropna: "wf_frame df \<Longrightarrow> wf_frame (dropna df)"
  unfolding dropna_def by (rule wf_mask_rows(1)) simp_all

lemma map_of_present:
  "name \<in> set (map fst df) \<Longrightarrow> \<exists>c. map_of df name = Some c"
  by (cases "map_of df name") (auto simp: map_of_eq_None_iff)

lemma length_to_numeric: "length (to_numeric parse c) = length (cells c)"
  by (cases c) simp_all

lemma normalize_columns_props:
  assumes wf: "wf_frame df"
    and cols: "''Ticker'' \<in> set (map fst df)" "''Shares'' \<in> set (map fst df)"
      "''AvgCostJPY'' \<in> set (map fst df)"
  shows "\<exists>norm t. normalize_columns repr parse df = Some norm
      \<and> map_of df ''Ticker'' = Some t
      \<and> wf_frame norm \<and> map fst norm = map fst df
      \<and> map_of norm ''Ticker''
          = Some (ObjCol (map (\<lambda>c. Str (py_upper (py_strip (astype_str repr c)))) (cells t)))"
proof -
  from map_of_present [OF cols(1)] obtain t where t: "map_of df ''Ticker'' = Some t" by blast
  define T where "T = ObjCol (map (\<lambda>c. Str (py_upper (py_strip (astype_str repr c)))) (cells t))"
  define df1 where "df1 = set_column df ''Ticker'' T"
  have lt: "length (cells t) = nrows df"
    using wf_frame_length [OF wf map_of_SomeD [OF t]] .
  have wf1: "wf_frame df1" and n1: "nrows df1 = nrows df"
    unfolding df1_def by (rule wf_set_column [OF wf], simp add: T_def lt)+
  have names1: "map fst df1 = map fst df" by (simp add: df1_def)
  have tk1: "map_of df1 ''Ticker'' = Some T"
    unfolding df1_def by (rule map_of_set_column_same [OF cols(1)])
  from map_of_present [of "''Shares''" df1] cols(2) names1
  obtain s where s: "map_of df1 ''Shares'' = Some s" by auto
  define df2 where "df2 = set_column df1 ''Shares'' (NumCol (to_numeric parse s))"
  have ls: "length (cells s) = nrows df1"
    using wf_frame_length [OF wf1 map_of_SomeD [OF s]] .
  have wf2: "wf_frame df2" and n2: "nrows df2 = nrows df1"
    unfolding df2_def by (rule wf_set_column [OF wf1], simp add: length_to_numeric ls)+
  have names2: "map fst df2 = map fst df" by (simp add: df2_def names1)
  have tk2: "map_of df2 ''Ticker'' = Some T"
    unfolding df2_def using tk1 by (simp add: map_of_set_column_other)
  from map_of_present [of "''AvgCostJPY''" df2] cols(3) names2
  obtain a where a: "map_of df2 ''AvgCostJPY'' = Some a" by auto
  define df3 where "df3 = set_column df2 ''AvgCostJPY'' (NumCol (to_numeric parse a))"
  have la: "length (cells a) = nrows df2"
    using wf_frame_length [OF wf2 map_of_SomeD [OF a]] .
  have wf3: "wf_frame df3"
    unfolding df3_def by (rule wf_set_column [OF wf2], simp add: length_to_numeric la)
  have names3: "map fst df3 = map fst df" by (simp add: df3_def names2)
  have tk3: "map_of df3 ''Ticker'' = Some T"
    unfolding df3_def using tk2 by (simp add: map_of_set_column_other)
  have "normalize_columns repr parse df = Some df3"
    unfolding normalize_columns_def
    by (simp add: t Let_def T_def [symmetric] df1_def [symmetric] s df2_def [symmetric] a
        df3_def [symmetric])
  with t wf3 names3 tk3 show ?thesis unfolding T_def by blast
qed

subsection \<open>Validation of the holdings table\<close>

lemma validate_nonempty:
  "\<not> df_empty df \<Longrightarrow>
   snd (validate_portfolio_data df) =
     missing_check df @ numeric_check df ''Shares'' @ numeric_check df ''AvgCostJPY''
       @ duplicate_check df @ null_check df
   \<and> fst (validate_portfolio_data df) = (snd (validate_portfolio_data df) = [])"
  by (simp add: validate_portfolio_data_def Let_def)

lemma validate_empty:
  "df_empty df \<Longrightarrow> validate_portfolio_data df = (False, missing_check df @ [EmptyData])"
  by (simp add: validate_portfolio_data_def)

lemma missing_check_mem:
  "e \<in> set (missing_check df) \<Longrightarrow> \<exists>cols. e = MissingColumns cols"
  by (auto simp: missing_check_def Let_def split: if_splits)

lemma duplicate_check_mem:
  "e \<in> set (duplicate_check df) \<Longrightarrow> \<exists>d. e = DuplicateTickers d"
  by (auto simp: duplicate_check_def Let_def split: option.splits if_splits)

lemma null_check_mem:
  "e \<in> set (null_check df) \<Longrightarrow> \<exists>cols. e = NullValues cols"
  by (auto simp: null_check_def Let_def split: if_splits)

lemma numeric_check_mem:
  assumes "e \<in> set (numeric_check df name)"
  shows "(e = NotNumeric name \<and> object_dtype df name)
       \<or> (e = NotPositive name \<and> numeric_dtype df name)"
proof (cases "map_of df name")
  case None
  with assms show ?thesis by (simp add: numeric_check_def)
next
  case (Some c)
  show ?thesis
  proof (cases c)
    case (NumCol xs)
    with Some assms show ?thesis
      by (simp add: numeric_check_def numeric_dtype_def split: if_splits)
  next
    case (ObjCol cs)
    with Some assms show ?thesis
      by (simp add: numeric_check_def object_dtype_def)
  qed
qed

lemma nonpositive_NumCol:
  "list_ex (\<lambda>x. case x of Num v \<Rightarrow> v \<le> 0 | _ \<Rightarrow> False) (cells (NumCol xs)) = any_nonpositive xs"
  by (induction xs) (auto simp: any_nonpositive_def split: option.splits)

lemma numeric_check_positive:
  assumes "numeric_dtype df name" "has_nonpositive df name"
  shows "numeric_check df name = [NotPositive name]"
proof -
  from assms(1) obtain xs where xs: "map_of df name = Some (NumCol xs)"
    by (auto simp: numeric_dtype_def split: option.splits column.splits)
  from assms(2) have "list_ex (\<lambda>x. case x of Num v \<Rightarrow> v \<le> 0 | _ \<Rightarrow> False) (cells (NumCol xs))"
    by (simp add: has_nonpositive_def xs del: cells.simps)
  then have "any_nonpositive xs" by (simp only: nonpositive_NumCol)
  then show ?thesis by (simp add: numeric_check_def xs)
qed

lemma numeric_check_object:
  "object_dtype df name \<Longrightarrow> numeric_check df name = [NotNumeric name]"
  by (auto simp: numeric_check_def object_dtype_def split: option.splits column.splits)

lemma list_ex_id_duplicated: "list_ex (\<lambda>b. b) (duplicated xs) \<longleftrightarrow> \<not> distinct xs"
proof -
  have "list_ex (\<lambda>b. b) (duplicated_from seen xs)
          \<longleftrightarrow> \<not> (distinct xs \<and> set xs \<inter> set seen = {})" for seen
    by (induction xs arbitrary: seen) auto
  then show ?thesis by (simp add: duplicated_def)
qed

lemma duplicate_check_dup:
  "\<not> distinct (ticker_cells df) \<Longrightarrow>
   duplicate_check df
     = [DuplicateTickers (select_mask (duplicated (ticker_cells df)) (ticker_cells df))]"
  by (auto simp: duplicate_check_def ticker_cells_def Let_def list_ex_id_duplicated
      split: option.splits)


text \<open>
  Claim C5, as the specification states it, fails: it promises a positive-value error
  naming the column whenever some row's Shares (or AvgCostJPY) is not positive. The
  positivity test sits in the \<^verbatim>\<open>elif\<close> of the dtype test, so a column of dtype object
  is reported as not numeric and its values are never compared with 0. In
  \<open>mixed_shares_table\<close> the first row has Shares = -10, and the only error returned is
  the must-be-numeric error.
\<close>

theorem validate_mixed_shares_counterexample:
  "\<not> df_empty mixed_shares_table
   \<and> has_nonpositive mixed_shares_table ''Shares''
   \<and> validate_portfolio_data mixed_shares_table = (False, [NotNumeric ''Shares''])
   \<and> NotPositive ''Shares'' \<notin> set (snd (validate_portfolio_data mixed_shares_table))"
  by (simp add: mixed_shares_table_def df_empty_def nrows_def has_nonpositive_def
      validate_portfolio_data_def missing_check_def numeric_check_def duplicate_check_def
      null_check_def duplicated_def select_mask_def any_nonpositive_def Let_def)


text \<open>
  Claim C5, amended. An empty table is rejected with the empty-data error. For a table
  that is not empty: when the Shares or the AvgCostJPY column has a numeric dtype and
  some row of it is not positive, the result is not ok and holds the positive-value
  error naming that column; when the column exists with a dtype that is not numeric, the
  result is not ok and holds the must-be-numeric error naming that column, and no
  positive-value error for it; when a ticker is duplicated the result is not ok and
  holds the duplicate-ticker error listing the repeated values. All these statements are
  about one and the same returned list, so the violations are collected together.
\<close>

theorem validate_portfolio_data_collects:
  "(df_empty df \<longrightarrow>
      fst (validate_portfolio_data df) = False
    \<and> EmptyData \<in> set (snd (validate_portfolio_data df)))
   \<and> (\<not> df_empty df \<longrightarrow>
        (\<forall>name \<in> {''Shares'', ''AvgCostJPY''}.
           (numeric_dtype df name \<and> has_nonpositive df name \<longrightarrow>
              fst (validate_portfolio_data df) = False
            \<and> NotPositive name \<in> set (snd (validate_portfolio_data df)))
         \<and> (object_dtype df name \<longrightarrow>
              fst (validate_portfolio_data df) = False
            \<and> NotNumeric name \<in> set (snd (validate_portfolio_data df))
            \<and> NotPositive name \<notin> set (snd (validate_portfolio_data df))))
      \<and> (\<not> distinct (ticker_cells df) \<longrightarrow>
            fst (validate_portfolio_data df) = False
          \<and> DuplicateTickers (select_mask (duplicated (ticker_cells df)) (ticker_cells df))
              \<in> set (snd (validate_portfolio_data df))))"
proof -
  have empty: "fst (validate_portfolio_data df) = False
    \<and> EmptyData \<in> set (snd (validate_portfolio_data df))" if "df_empty df"
    using validate_empty [OF that] by simp
  have pos: "fst (validate_portfolio_data df) = False
            \<and> NotPositive name \<in> set (snd (validate_portfolio_data df))"
    if ne: "\<not> df_empty df" and nm: "name \<in> {''Shares'', ''AvgCostJPY''}"
      and h: "numeric_dtype df name" "has_nonpositive df name" for name
  proof -
    from numeric_check_positive [OF h] nm
    have "NotPositive name \<in> set (snd (validate_portfolio_data df))"
      using validate_nonempty [OF ne] by auto
    then show ?thesis using validate_nonempty [OF ne] by auto
  qed
  have obj: "fst (validate_portfolio_data df) = False
            \<and> NotNumeric name \<in> set (snd (validate_portfolio_data df))
            \<and> NotPositive name \<notin> set (snd (validate_portfolio_data df))"
    if ne: "\<not> df_empty df" and nm: "name \<in> {''Shares'', ''AvgCostJPY''}"
      and h: "object_dtype df name" for name
  proof -
    from numeric_check_object [OF h] nm
    have 1: "NotNumeric name \<in> set (snd (validate_portfolio_data df))"
      using validate_nonempty [OF ne] by auto
    have nn: "\<not> numeric_dtype df name"
      using h by (auto simp: numeric_dtype_def object_dtype_def split: option.splits column.splits)
    have 2: "NotPositive name \<notin> set (snd (validate_portfolio_data df))"
    proof
      assume "NotPositive name \<in> set (snd (validate_portfolio_data df))"
      then consider "NotPositive name \<in> set (missing_check df)"
        | "NotPositive name \<in> set (numeric_check df ''Shares'')"
        | "NotPositive name \<in> set (numeric_check df ''AvgCostJPY'')"
        | "NotPositive name \<in> set (duplicate_check df)"
        | "NotPositive name \<in> set (null_check df)"
        using validate_nonempty [OF ne] by auto
      then show False
      proof cases
        case 1 then show ?thesis by (blast dest: missing_check_mem)
      next
        case 2 then show ?thesis using nn by (auto dest: numeric_check_mem)
      next
        case 3 then show ?thesis using nn by (auto dest: numeric_check_mem)
      next
        case 4 then show ?thesis by (blast dest: duplicate_check_mem)
      next
        case 5 then show ?thesis by (blast dest: null_check_mem)
      qed
    qed
    from 1 2 show ?thesis using validate_nonempty [OF ne] by auto
  qed
  have dup: "fst (validate_portfolio_data df) = False
          \<and> DuplicateTickers (select_mask (duplicated (ticker_cells df)) (ticker_cells df))
              \<in> set (snd (validate_portfolio_data df))"
    if ne: "\<not> df_empty df" and h: "\<not> distinct (ticker_cells df)"
  proof -
    from duplicate_check_dup [OF h]
    have "DuplicateTickers (select_mask (duplicated (ticker_cells df)) (ticker_cells df))
              \<in> set (snd (validate_portfolio_data df))"
      using validate_nonempty [OF ne] by simp
    then show ?thesis using validate_nonempty [OF ne] by auto
  qed
  from empty pos obj dup show ?thesis by blast
qed


theorem validate_portfolio_data_collects_witness:
  "df_empty [] \<and> EmptyData \<in> set (snd (validate_portfolio_data []))
   \<and> \<not> df_empty bad_numbers_table
   \<and> numeric_dtype bad_numbers_table ''Shares'' \<and> has_nonpositive bad_numbers_table ''Shares''
   \<and> numeric_dtype bad_numbers_table ''AvgCostJPY''
   \<and> has_nonpositive bad_numbers_table ''AvgCostJPY''
   \<and> \<not> distinct (ticker_cells bad_numbers_table)
   \<and> fst (validate_portfolio_data bad_numbers_table) = False
   \<and> NotPositive ''Shares'' \<in> set (snd (validate_portfolio_data bad_numbers_table))
   \<and> NotPositive ''AvgCostJPY'' \<in> set (snd (validate_portfolio_data bad_numbers_table))
   \<and> DuplicateTickers [Str ''AAPL''] \<in> set (snd (validate_portfolio_data bad_numbers_table))
   \<and> \<not> df_empty mixed_shares_table \<and> object_dtype mixed_shares_table ''Shares''
   \<and> NotNumeric ''Shares'' \<in> set (snd (validate_portfolio_data mixed_shares_table))
   \<and> NotPositive ''Shares'' \<notin> set (snd (validate_portfolio_data mixed_shares_table))"
proof -
  have e: "df_empty []" by (simp add: df_empty_def)
  have b: "\<not> df_empty bad_numbers_table"
    "numeric_dtype bad_numbers_table ''Shares''" "has_nonpositive bad_numbers_table ''Shares''"
    "numeric_dtype bad_numbers_table ''AvgCostJPY''"
    "has_nonpositive bad_numbers_table ''AvgCostJPY''"
    by (simp_all add: bad_numbers_table_def df_empty_def nrows_def numeric_dtype_def
        has_nonpositive_def)
  have tc: "ticker_cells bad_numbers_table = [Str ''AAPL'', Str ''AAPL'', Str ''MSFT'']"
    by (simp add: bad_numbers_table_def ticker_cells_def)
  have d: "\<not> distinct (ticker_cells bad_numbers_table)" by (simp add: tc)
  have sel: "select_mask (duplicated (ticker_cells bad_numbers_table))
               (ticker_cells bad_numbers_table) = [Str ''AAPL'']"
    by (simp add: tc duplicated_def select_mask_def)
  have m: "\<not> df_empty mixed_shares_table" "object_dtype mixed_shares_table ''Shares''"
    by (simp_all add: mixed_shares_table_def df_empty_def nrows_def object_dtype_def)
  note t0 = validate_portfolio_data_collects [of "[]"]
  note t1 = validate_portfolio_data_collects [of bad_numbers_table]
  note t2 = validate_portfolio_data_collects [of mixed_shares_table]
  from t0 e have r0: "EmptyData \<in> set (snd (validate_portfolio_data []))" by blast
  from t1 b d have r1: "fst (validate_portfolio_data bad_numbers_table) = False"
    "NotPositive ''Shares'' \<in> set (snd (validate_portfolio_data bad_numbers_table))"
    "NotPositive ''AvgCostJPY'' \<in> set (snd (validate_portfolio_data bad_numbers_table))"
    "DuplicateTickers (select_mask (duplicated (ticker_cells bad_numbers_table))
               (ticker_cells bad_numbers_table))
       \<in> set (snd (validate_portfolio_data bad_numbers_table))"
    by blast+
  from t2 m have r2:
    "NotNumeric ''Shares'' \<in> set (snd (validate_portfolio_data mixed_shares_table))"
    "NotPositive ''Shares'' \<notin> set (snd (validate_portfolio_data mixed_shares_table))"
    by blast+
  from e r0 b d r1 m r2 show ?thesis by (simp only: sel) blast
qed


subsection \<open>Cleaning of the holdings table\<close>

text \<open>
  Claim C8. For a well-formed table that has the columns Ticker, Shares and AvgCostJPY,
  \<open>clean_portfolio_data\<close> returns a table with the same columns such that: no cell of
  any column is missing; the ticker column holds pairwise distinct text cells, each
  unchanged by uppercasing and by stripping whitespace; the tickers are exactly those of
  the complete rows; and every returned row is the first complete row (after the
  normalisation of the three columns) that carries its ticker.
\<close>

theorem clean_portfolio_data_spec:
  assumes wf: "wf_frame df"
    and cols: "''Ticker'' \<in> set (map fst df)" "''Shares'' \<in> set (map fst df)"
      "''AvgCostJPY'' \<in> set (map fst df)"
  shows "\<exists>norm out tk.
      normalize_columns repr parse df = Some norm
    \<and> clean_portfolio_data repr parse df = Some out
    \<and> map fst out = map fst df
    \<and> (\<forall>p \<in> set out. Null \<notin> set (cells (snd p)))
    \<and> map_of out ''Ticker'' = Some (ObjCol tk) \<and> distinct tk
    \<and> (\<forall>c \<in> set tk. \<exists>s. c = Str s \<and> py_upper s = s \<and> py_strip s = s)
    \<and> set tk = set (ticker_cells (dropna norm))
    \<and> (\<forall>j < nrows out. \<exists>i < nrows (dropna norm).
          row_at out j = row_at (dropna norm) i
        \<and> ticker_cells (dropna norm) ! i \<notin> set (take i (ticker_cells (dropna norm))))"
proof -
  from normalize_columns_props [OF wf cols, of repr parse]
  obtain norm t where norm: "normalize_columns repr parse df = Some norm"
    and wfn: "wf_frame norm" and names: "map fst norm = map fst df"
    and tkn: "map_of norm ''Ticker''
          = Some (ObjCol (map (\<lambda>c. Str (py_upper (py_strip (astype_str repr c)))) (cells t)))"
    by blast
  define T where "T = map (\<lambda>c. Str (py_upper (py_strip (astype_str repr c)))) (cells t)"
  define pre where "pre = dropna norm"
  define m1 where "m1 = map (row_complete norm) [0..<nrows norm]"
  have pre_mask: "pre = mask_rows m1 norm" by (simp add: pre_def dropna_def m1_def)
  have wfp: "wf_frame pre" unfolding pre_def by (rule wf_dropna [OF wfn])
  define tkpre where "tkpre = select_mask m1 T"
  have tkp: "map_of pre ''Ticker'' = Some (ObjCol tkpre)"
    by (simp add: pre_mask map_of_mask_rows tkn T_def [symmetric] tkpre_def)
  have tcp: "ticker_cells pre = tkpre" by (simp add: ticker_cells_def tkp)
  have lenp: "length tkpre = nrows pre"
    using wf_frame_length [OF wfp map_of_SomeD [OF tkp]] by simp
  define m2 where "m2 = map Not (duplicated tkpre)"
  have lm2: "length m2 = nrows pre" by (simp add: m2_def length_duplicated lenp)
  define out where "out = mask_rows m2 pre"
  have out_eq: "drop_duplicates_ticker pre = out"
    by (simp add: drop_duplicates_ticker_def tkp out_def m2_def)
  have clean: "clean_portfolio_data repr parse df = Some out"
    by (simp add: clean_portfolio_data_def norm pre_def [symmetric] out_eq)
  have names_out: "map fst out = map fst df"
    by (simp add: out_def pre_mask names)
  define tk where "tk = select_mask m2 tkpre"
  have tko: "map_of out ''Ticker'' = Some (ObjCol tk)"
    by (simp add: out_def map_of_mask_rows tkp tk_def)
  have dist: "distinct tk" and set_tk: "set tk = set tkpre"
    unfolding tk_def m2_def by (rule select_not_duplicated)+
  have nonull: "\<forall>p \<in> set out. Null \<notin> set (cells (snd p))"
  proof
    fix p assume "p \<in> set out"
    then have "(fst p, snd p) \<in> set (mask_rows m2 pre)" by (simp add: out_def)
    from mask_rows_mem [OF this] obtain c0 where
      c0: "(fst p, c0) \<in> set (dropna norm)" "snd p = mask_column m2 c0"
      unfolding pre_def by blast
    from dropna_no_null [OF wfn c0(1)] have "Null \<notin> set (cells c0)" .
    moreover have "set (cells (snd p)) \<subseteq> set (cells c0)"
      by (simp add: c0(2) cells_mask_column set_select_mask)
    ultimately show "Null \<notin> set (cells (snd p))" by blast
  qed
  have strings: "\<forall>c \<in> set tk. \<exists>s. c = Str s \<and> py_upper s = s \<and> py_strip s = s"
  proof
    fix c assume "c \<in> set tk"
    then have "c \<in> set T"
      using set_tk set_select_mask [of m1 T] by (auto simp: tkpre_def)
    then obtain x where "c = Str (py_upper (py_strip x))" by (auto simp: T_def)
    then show "\<exists>s. c = Str s \<and> py_upper s = s \<and> py_strip s = s"
      using normalized_ticker [of x] by blast
  qed
  have first: "\<forall>j < nrows out. \<exists>i < nrows pre.
          row_at out j = row_at pre i \<and> tkpre ! i \<notin> set (take i tkpre)"
  proof (intro allI impI)
    fix j assume j: "j < nrows out"
    have "pre \<noteq> []"
      using tkp by auto
    from wf_mask_rows(2) [OF wfp lm2 this]
    have n_out: "nrows out = length (select_mask m2 [0..<length m2])" by (simp add: out_def)
    define i where "i = select_mask m2 [0..<length m2] ! j"
    from j n_out have jl: "j < length (select_mask m2 [0..<length m2])" by simp
    then have "i \<in> set (select_mask m2 [0..<length m2])" by (simp add: i_def)
    from select_mask_index_props [OF this] have i: "i < length m2" "m2 ! i" by simp_all
    have row: "row_at out j = row_at pre i"
      unfolding out_def i_def by (rule row_at_mask_rows [OF wfp lm2 jl])
    from i lm2 lenp have il: "i < length tkpre" by simp
    from i(2) il have "\<not> duplicated tkpre ! i"
      by (simp add: m2_def length_duplicated)
    with duplicated_nth [OF il] have "tkpre ! i \<notin> set (take i tkpre)" by simp
    with row i(1) lm2 show "\<exists>i < nrows pre.
          row_at out j = row_at pre i \<and> tkpre ! i \<notin> set (take i tkpre)" by auto
  qed
  have set_tk': "set tk = set (ticker_cells (dropna norm))"
    using set_tk tcp by (simp add: pre_def)
  have first': "\<forall>j < nrows out. \<exists>i < nrows (dropna norm).
          row_at out j = row_at (dropna norm) i
        \<and> ticker_cells (dropna norm) ! i \<notin> set (take i (ticker_cells (dropna norm)))"
    using first unfolding tcp [symmetric] pre_def .
  show ?thesis
    by (intro exI conjI)
      (rule norm, rule clean, rule names_out, rule nonull, rule tko, rule dist,
        rule strings, rule set_tk', rule first')
qed

theorem clean_portfolio_data_spec_witness:
  "wf_frame dirty_table
   \<and> ''Ticker'' \<in> set (map fst dirty_table) \<and> ''Shares'' \<in> set (map fst dirty_table)
   \<and> ''AvgCostJPY'' \<in> set (map fst dirty_table)
   \<and> (\<exists>out tk. clean_portfolio_data nan_repr parse_100 dirty_table = Some out
        \<and> map fst out = [''Ticker'', ''Shares'', ''AvgCostJPY'']
        \<and> (\<forall>p \<in> set out. Null \<notin> set (cells (snd p)))
        \<and> map_of out ''Ticker'' = Some (ObjCol tk) \<and> distinct tk
        \<and> (\<forall>c \<in> set tk. \<exists>s. c = Str s \<and> py_upper s = s \<and> py_strip s = s))"
proof -
  have wf: "wf_frame dirty_table"
    by (simp add: wf_frame_def dirty_table_def nrows_def)
  have cols: "''Ticker'' \<in> set (map fst dirty_table)" "''Shares'' \<in> set (map fst dirty_table)"
    "''AvgCostJPY'' \<in> set (map fst dirty_table)"
    by (simp_all add: dirty_table_def)
  have names: "map fst dirty_table = [''Ticker'', ''Shares'', ''AvgCostJPY'']"
    by (simp add: dirty_table_def)
  from clean_portfolio_data_spec [OF wf cols, of nan_repr parse_100] names
  have "\<exists>out tk. clean_portfolio_data nan_repr parse_100 dirty_table = Some out
        \<and> map fst out = [''Ticker'', ''Shares'', ''AvgCostJPY'']
        \<and> (\<forall>p \<in> set out. Null \<notin> set (cells (snd p)))
        \<and> map_of out ''Ticker'' = Some (ObjCol tk) \<and> distinct tk
        \<and> (\<forall>c \<in> set tk. \<exists>s. c = Str s \<and> py_upper s = s \<and> py_strip s = s)"
    by (elim exE conjE) (intro exI conjI, assumption, simp, assumption+)
  with wf cols show ?thesis by (intro conjI)
qed

text \<open>The cleaned table of the example: the second AAPL row and the row whose share
  count is not a number are gone, and the missing ticker has become the text NAN.\<close>

lemma clean_dirty_table:
  "clean_portfolio_data nan_repr parse_100 dirty_table =
     Some [(''Ticker'', ObjCol [Str ''AAPL'', Str ''NAN'']),
           (''Shares'', NumCol [Some 100, Some 3]),
           (''AvgCostJPY'', NumCol [Some 15000, Some 1])]"
  by code_simp

subsection \<open>Rolling betas\<close>

text \<open>
  Claim C7. When the date-aligned, fully populated join of the portfolio returns and
  the factor table has fewer than 21 rows, \<open>calculate_rolling_betas\<close> with its default
  window returns the empty table, which has no row of betas at all, whatever the
  regression would compute; the same holds for any window longer than the join. A
  join that cannot be built is answered with the empty table as well.
\<close>

theorem rolling_betas_short_input_empty:
  "((\<forall>df. concat_dropna portfolio_returns factor_data = Some df \<longrightarrow> length df < 21)
      \<longrightarrow> calculate_rolling_betas_default fit portfolio_returns factor_data = empty_betas
        \<and> betas_rows (calculate_rolling_betas_default fit portfolio_returns factor_data) = [])
   \<and> ((\<forall>df. concat_dropna portfolio_returns factor_data = Some df \<longrightarrow> int (length df) < window)
      \<longrightarrow> calculate_rolling_betas fit portfolio_returns factor_data window = empty_betas)
   \<and> (concat_dropna portfolio_returns factor_data = None
      \<longrightarrow> calculate_rolling_betas fit portfolio_returns factor_data window = empty_betas)"
  by (simp add: calculate_rolling_betas_default_def calculate_rolling_betas_def empty_betas_def
      split: option.split)

lemma short_join:
  "concat_dropna short_returns short_factors =
     Some [(1, Some (1 / 100), [Some (3 / 1000), Some (1 / 10000)]),
           (2, Some (- (2 / 100)), [Some (- (1 / 100)), Some (1 / 10000)])]"
  by (simp add: concat_dropna_def concat_axis1_def short_returns_def short_factors_def
      lookup_default_def joined_complete_def Let_def del: not_None_eq)

theorem rolling_betas_short_input_empty_witness:
  "(\<exists>df. concat_dropna short_returns short_factors = Some df \<and> length df = 2)
   \<and> calculate_rolling_betas_default echo_fit short_returns short_factors = empty_betas
   \<and> betas_rows (calculate_rolling_betas_default echo_fit short_returns short_factors) = []
   \<and> betas_rows (calculate_rolling_betas echo_fit short_returns short_factors 2) \<noteq> []"
proof -
  have h: "\<forall>df. concat_dropna short_returns short_factors = Some df \<longrightarrow> length df < 21"
    by (simp add: short_join)
  have full: "betas_rows (calculate_rolling_betas echo_fit short_returns short_factors 2) \<noteq> []"
    by (simp add: calculate_rolling_betas_def short_join echo_fit_def)
  have two: "\<exists>df. concat_dropna short_returns short_factors = Some df \<and> length df = 2"
    by (simp add: short_join)
  from rolling_betas_short_input_empty [of short_returns short_factors echo_fit 21] h full two
  show ?thesis by blast
qed

subsection \<open>Risk contribution\<close>

lemma sqrt_1024: "sqrt (1 / 1024) = 1 / 32"
  by (rule real_sqrt_unique) (simp_all add: power2_eq_square)

lemma cov_swing: "cov_matrix [swing] = Some [[1 / 1024]]"
  by (simp add: cov_matrix_def table_rows_def swing_def cov_entry_def mean_of_def)


lemma sum_map2_divide:
  "sum_list (map2 (\<lambda>w m. w * m) ws (map (\<lambda>x. x / c) vs))
     = sum_list (map2 (\<lambda>x y. x * y) ws vs) / (c::real)"
proof (induction ws arbitrary: vs)
  case Nil
  then show ?case by simp
next
  case (Cons w ws)
  then show ?case by (cases vs) (simp_all add: add_divide_distrib)
qed

lemma sum_map_percent:
  "sum_list (map (\<lambda>x. x / a * 100) xs) = sum_list xs / (a::real) * 100"
  by (induction xs) (simp_all add: add_divide_distrib distrib_right)

lemma py_sqrt_Some: "py_sqrt v = Some vol \<Longrightarrow> 0 \<le> v \<and> vol = sqrt v"
  by (auto simp: py_sqrt_def split: if_splits)

text \<open>
  The contribution percentages add up to 100 divided by the portfolio volatility: the
  contributions add up to the volatility, and they are divided by the variance.
\<close>

lemma risk_contribution_pct_sum:
  assumes r: "calculate_risk_contribution tickers returns weights = Some r"
    and vol: "rc_portfolio_volatility r = Some vol" "0 < vol"
  shows "sum_list (risk_contribution r) = vol
       \<and> sum_list (risk_contribution_pct r) = 100 / vol"
proof -
  from r have g1: "\<not> (returns_empty returns \<or> weights = [])"
    by (simp add: calculate_risk_contribution_def split: if_splits)
  from r g1 have g2: "length weights = length returns"
    by (simp add: calculate_risk_contribution_def split: if_splits)
  show ?thesis
  proof (cases "cov_matrix returns")
    case None
    with r g1 g2 have "rc_portfolio_volatility r = None"
      by (auto simp: calculate_risk_contribution_def)
    with vol(1) show ?thesis by simp
  next
    case (Some c)
    define v where "v = dot_product weights (matvec c weights)"
    show ?thesis
    proof (cases "py_sqrt v")
      case None
      with r g1 g2 Some have "rc_portfolio_volatility r = None"
        by (auto simp: calculate_risk_contribution_def v_def [symmetric])
      with vol(1) show ?thesis by simp
    next
      case (Some vol')
      with r g1 g2 \<open>cov_matrix returns = Some c\<close>
      have rec: "r = \<lparr> rc_tickers = tickers, rc_weights = weights,
             marginal_risk = (if vol' > 0 then map (\<lambda>x. x / vol') (matvec c weights)
                              else zeros_like weights),
             risk_contribution = map2 (\<lambda>w m. w * m) weights
                (if vol' > 0 then map (\<lambda>x. x / vol') (matvec c weights)
                 else zeros_like weights),
             risk_contribution_pct =
               (if v > 0 then map (\<lambda>x. x / v * 100)
                    (map2 (\<lambda>w m. w * m) weights
                      (if vol' > 0 then map (\<lambda>x. x / vol') (matvec c weights)
                       else zeros_like weights))
                else zeros_like weights),
             rc_portfolio_volatility = Some vol' \<rparr>"
        by (auto simp: calculate_risk_contribution_def v_def [symmetric] Let_def)
      with vol(1) have same: "vol' = vol" by simp
      from py_sqrt_Some [OF Some] same have v0: "0 \<le> v" and sq: "vol = sqrt v" by simp_all
      from sq vol(2) have vpos: "0 < v" by simp
      from v0 have vv: "vol * vol = v" by (simp add: sq)
      have rc: "risk_contribution r
          = map2 (\<lambda>w m. w * m) weights (map (\<lambda>x. x / vol) (matvec c weights))"
        using vol(2) by (simp add: rec same)
      have pct: "risk_contribution_pct r = map (\<lambda>x. x / v * 100) (risk_contribution r)"
        using vol(2) vpos by (simp add: rec same)
      have "sum_list (risk_contribution r) = v / vol"
        by (simp only: rc sum_map2_divide v_def dot_product_def)
      also have "\<dots> = vol" using vv vol(2) by (simp add: field_simps)
      finally have 1: "sum_list (risk_contribution r) = vol" .
      have "sum_list (risk_contribution_pct r) = vol / v * 100"
        by (simp only: pct sum_map_percent 1)
      also have "\<dots> = 100 / vol" using vv vol(2) vpos by (simp add: field_simps)
      finally show ?thesis using 1 by simp
    qed
  qed
qed

text \<open>
  Claim C3. The marginal risk, the contribution and the contribution percentage are
  computed by the formulas the claim gives, but the percentages do not add up to 100:
  the contributions add up to the portfolio volatility and are then divided by the
  portfolio variance, so their percentages add up to 100 divided by the volatility
  (lemma \<open>risk_contribution_pct_sum\<close>). For a portfolio of one ticker with weight 1 and
  the returns \<open>swing\<close> the volatility is 1/32 and the single percentage, which the
  chart of the source labels as the ticker's share of the risk in percent, is 3200.
\<close>

theorem single_ticker_contribution_pct:
  "calculate_risk_contribution [''AAPL''] [swing] [1] =
     Some \<lparr> rc_tickers = [''AAPL''], rc_weights = [1], marginal_risk = [1 / 32],
            risk_contribution = [1 / 32], risk_contribution_pct = [3200],
            rc_portfolio_volatility = Some (1 / 32) \<rparr>
   \<and> sum_list [3200 :: real] \<noteq> 100"
proof -
  have ne: "\<not> returns_empty [swing]"
    by (simp add: returns_empty_def table_rows_def swing_def)
  have mv: "matvec [[1 / 1024]] [1] = [1 / 1024]"
    by (simp add: matvec_def dot_product_def)
  have v: "dot_product [1] [1 / 1024] = 1 / 1024"
    by (simp add: dot_product_def)
  have s: "py_sqrt (1 / 1024) = Some (1 / 32)"
    by (simp add: py_sqrt_def sqrt_1024)
  show ?thesis
    by (simp add: calculate_risk_contribution_def ne cov_swing v s mv Let_def)
qed

subsection \<open>Diversification ratio\<close>

lemma identical_pair_ratio:
  assumes "xs \<noteq> []"
  shows "\<exists>r. calculate_portfolio_risk [xs, xs] [1 / 2, 1 / 2] = Some r
           \<and> diversification_ratio r = 1"
proof -
  have ne: "\<not> returns_empty [xs, xs]"
    using assms by (simp add: returns_empty_def table_rows_def)
  show ?thesis
  proof (cases "length xs < 2")
    case True
    then have "cov_matrix [xs, xs] = None" by (simp add: cov_matrix_def table_rows_def)
    then show ?thesis
      by (simp add: calculate_portfolio_risk_def ne Let_def)
  next
    case False
    define v where "v = cov_entry xs xs"
    from False have cov: "cov_matrix [xs, xs] = Some [[v, v], [v, v]]"
      by (simp add: cov_matrix_def table_rows_def v_def)
    have var: "dot_product [1 / 2, 1 / 2] (matvec [[v, v], [v, v]] [1 / 2, 1 / 2]) = v"
      by (simp add: dot_product_def matvec_def)
    from False have std: "std_of xs = py_sqrt v" by (simp add: std_of_def v_def)
    show ?thesis
    proof (cases "py_sqrt v")
      case None
      then show ?thesis
        by (simp add: calculate_portfolio_risk_def ne Let_def cov var)
    next
      case (Some vol)
      have "weighted_sum_skipna [Some vol, Some vol] [1 / 2, 1 / 2] = vol"
        by (simp add: weighted_sum_skipna_def)
      with Some show ?thesis
        by (simp add: calculate_portfolio_risk_def ne Let_def cov var std)
    qed
  qed
qed


lemma sum_list_map2_nth:
  "length xs = length ys \<Longrightarrow>
   sum_list (map2 f xs ys) = (\<Sum>i<length xs. (f (xs ! i) (ys ! i) :: real))"
proof -
  assume len: "length xs = length ys"
  have "map2 f xs ys = map (\<lambda>i. f (xs ! i) (ys ! i)) [0..<length xs]"
    by (rule nth_equalityI) (simp_all add: len)
  then have "sum_list (map2 f xs ys) = sum_list (map (\<lambda>i. f (xs ! i) (ys ! i)) [0..<length xs])"
    by simp
  also have "\<dots> = (\<Sum>i<length xs. f (xs ! i) (ys ! i))"
    by (simp add: interv_sum_list_conv_sum_set_nat atLeast0LessThan)
  finally show ?thesis .
qed

lemma portfolio_variance_double_sum:
  assumes "length weights = length returns"
  shows "dot_product weights
           (matvec (map (\<lambda>xs. map (\<lambda>ys. cov_entry xs ys) returns) returns) weights)
         = (\<Sum>i<length returns. \<Sum>j<length returns.
              weights ! i * weights ! j * cov_entry (returns ! i) (returns ! j))"
proof -
  let ?m = "length returns"
  have row: "dot_product (map (\<lambda>ys. cov_entry xs ys) returns) weights
      = (\<Sum>j<?m. cov_entry xs (returns ! j) * weights ! j)" for xs
    unfolding dot_product_def
    using sum_list_map2_nth [of "map (\<lambda>ys. cov_entry xs ys) returns" weights "\<lambda>x y. x * y"]
      assms by simp
  have "dot_product weights
           (matvec (map (\<lambda>xs. map (\<lambda>ys. cov_entry xs ys) returns) returns) weights)
      = (\<Sum>i<?m. weights ! i
            * (matvec (map (\<lambda>xs. map (\<lambda>ys. cov_entry xs ys) returns) returns) weights ! i))"
    unfolding dot_product_def
    using sum_list_map2_nth [of weights
        "matvec (map (\<lambda>xs. map (\<lambda>ys. cov_entry xs ys) returns) returns) weights"
        "\<lambda>x y. x * y"] assms
    by (simp add: matvec_def)
  also have "\<dots> = (\<Sum>i<?m. weights ! i
            * (\<Sum>j<?m. cov_entry (returns ! i) (returns ! j) * weights ! j))"
    by (rule sum.cong) (simp_all add: matvec_def row)
  also have "\<dots> = (\<Sum>i<?m. \<Sum>j<?m.
              weights ! i * weights ! j * cov_entry (returns ! i) (returns ! j))"
    by (simp add: sum_distrib_left mult_ac)
  finally show ?thesis .
qed

lemma zip_same: "zip xs xs = map (\<lambda>x. (x, x)) xs"
  by (induction xs) simp_all

lemma cov_entry_self_nonneg: "0 \<le> cov_entry xs xs"
proof -
  have "0 \<le> sum_list (map2 (\<lambda>x y. (x - mean_of xs) * (y - mean_of xs)) xs xs)"
    by (rule sum_list_nonneg) (auto simp: zip_same)
  then show ?thesis by (simp add: cov_entry_def)
qed

lemma std_of_complete:
  "2 \<le> length xs \<Longrightarrow> std_of xs = Some (sqrt (cov_entry xs xs))"
  using cov_entry_self_nonneg [of xs] by (simp add: std_of_def py_sqrt_def)

lemma weighted_sum_all_present:
  "weighted_sum_skipna (map (\<lambda>col. Some (f col)) cols) ws
     = sum_list (map2 (\<lambda>col w. f col * w) cols ws)"
proof (induction cols arbitrary: ws)
  case Nil
  then show ?case by (simp add: weighted_sum_skipna_def)
next
  case (Cons c cols)
  then show ?case by (cases ws) (simp_all add: weighted_sum_skipna_def)
qed

lemma weighted_sum_complete:
  assumes "\<forall>col \<in> set returns. 2 \<le> length col"
  shows "weighted_sum_skipna (map std_of returns) weights
     = sum_list (map2 (\<lambda>col w. sqrt (cov_entry col col) * w) returns weights)"
proof -
  have "map std_of returns = map (\<lambda>col. Some (sqrt (cov_entry col col))) returns"
    using assms by (simp add: std_of_complete)
  then show ?thesis by (simp only: weighted_sum_all_present)
qed

lemma portfolio_risk_result:
  assumes "\<not> returns_empty returns" "weights \<noteq> []" "length weights = length returns"
  shows "calculate_portfolio_risk returns weights =
     Some \<lparr> portfolio_volatility =
              (case cov_matrix returns of
                 None \<Rightarrow> None
               | Some c \<Rightarrow> py_sqrt (dot_product weights (matvec c weights))),
            covariance_matrix = cov_matrix returns,
            individual_volatilities = map std_of returns,
            weighted_avg_volatility = weighted_sum_skipna (map std_of returns) weights,
            diversification_ratio =
              (case (case cov_matrix returns of
                       None \<Rightarrow> None
                     | Some c \<Rightarrow> py_sqrt (dot_product weights (matvec c weights))) of
                 None \<Rightarrow> 1
               | Some vol \<Rightarrow>
                   if 0 < vol
                   then weighted_sum_skipna (map std_of returns) weights / vol else 1) \<rparr>"
  using assms by (simp add: calculate_portfolio_risk_def Let_def)

lemma portfolio_risk_complete:
  assumes ne: "returns \<noteq> []" and len: "\<forall>col \<in> set returns. length col = n" and n: "2 \<le> n"
    and w: "length weights = length returns"
    and v: "0 < (\<Sum>i<length returns. \<Sum>j<length returns.
              weights ! i * weights ! j * cov_entry (returns ! i) (returns ! j))"
  shows "\<exists>r. calculate_portfolio_risk returns weights = Some r
     \<and> portfolio_volatility r
         = Some (sqrt (\<Sum>i<length returns. \<Sum>j<length returns.
              weights ! i * weights ! j * cov_entry (returns ! i) (returns ! j)))
     \<and> weighted_avg_volatility r
         = sum_list (map2 (\<lambda>col w. sqrt (cov_entry col col) * w) returns weights)
     \<and> diversification_ratio r
         = sum_list (map2 (\<lambda>col w. sqrt (cov_entry col col) * w) returns weights)
           / sqrt (\<Sum>i<length returns. \<Sum>j<length returns.
              weights ! i * weights ! j * cov_entry (returns ! i) (returns ! j))"
proof -
  define V where "V = (\<Sum>i<length returns. \<Sum>j<length returns.
              weights ! i * weights ! j * cov_entry (returns ! i) (returns ! j))"
  from ne obtain c cs where rc: "returns = c # cs" by (cases returns) auto
  with len have rows: "table_rows returns = n" by (simp add: table_rows_def)
  with n ne have nonempty: "\<not> returns_empty returns" by (simp add: returns_empty_def)
  from ne w have wne: "weights \<noteq> []" by auto
  from rows n have cov: "cov_matrix returns
      = Some (map (\<lambda>xs. map (\<lambda>ys. cov_entry xs ys) returns) returns)"
    by (simp add: cov_matrix_def)
  have var: "dot_product weights
       (matvec (map (\<lambda>xs. map (\<lambda>ys. cov_entry xs ys) returns) returns) weights) = V"
    unfolding V_def by (rule portfolio_variance_double_sum [OF w])
  from v have vpos: "0 < V" by (simp add: V_def)
  then have sq: "py_sqrt V = Some (sqrt V)" "0 < sqrt V" by (simp_all add: py_sqrt_def)
  from len n have "\<forall>col \<in> set returns. 2 \<le> length col" by simp
  from weighted_sum_complete [OF this]
  have ws: "weighted_sum_skipna (map std_of returns) weights
     = sum_list (map2 (\<lambda>col w. sqrt (cov_entry col col) * w) returns weights)" .
  show ?thesis
    unfolding V_def [symmetric]
    by (simp add: portfolio_risk_result [OF nonempty wne w] cov var sq vpos ws)
qed

lemma sqrt_one_real: "sqrt 1 = (1::real)"
  by simp

lemma uncorrelated_pair:
  "calculate_portfolio_risk [[- 1, 0, 1], [1, - 2, 1]] [1 / 2, 1 / 2] =
     Some \<lparr> portfolio_volatility = Some 1,
            covariance_matrix = Some [[1, 0], [0, 3]],
            individual_volatilities = [Some 1, Some (sqrt 3)],
            weighted_avg_volatility = (1 + sqrt 3) / 2,
            diversification_ratio = (1 + sqrt 3) / 2 \<rparr>"
proof -
  have ne: "\<not> returns_empty [[- 1, 0, 1], [1, - 2, 1 :: real]]"
    by (simp add: returns_empty_def table_rows_def)
  have cov: "cov_matrix [[- 1, 0, 1], [1, - 2, 1]] = Some [[1, 0], [0, 3]]"
    by (simp add: cov_matrix_def table_rows_def cov_entry_def mean_of_def)
  have var: "dot_product [1 / 2, 1 / 2] (matvec [[1, 0], [0, 3]] [1 / 2, 1 / 2]) = 1"
    by (simp add: dot_product_def matvec_def)
  have s1: "py_sqrt 1 = Some 1" by (simp add: py_sqrt_def)
  have std1: "std_of [- 1, 0, 1] = Some 1"
    by (simp add: std_of_def cov_entry_def mean_of_def py_sqrt_def)
  have std2: "std_of [1, - 2, 1] = Some (sqrt 3)"
    by (simp add: std_of_def cov_entry_def mean_of_def py_sqrt_def)
  have ws: "weighted_sum_skipna [Some 1, Some (sqrt 3)] [1 / 2, 1 / 2] = (1 + sqrt 3) / 2"
    by (simp add: weighted_sum_skipna_def add_divide_distrib)
  show ?thesis
    by (simp add: portfolio_risk_result [OF ne] cov var s1 std1 std2 ws)
qed

text \<open>
  Claim C6. Whenever \<open>calculate_portfolio_risk\<close> returns a result, its portfolio
  volatility is the square root of the weights applied on both sides to the daily
  covariance matrix of the returns, its weighted average volatility is the sum of the
  per-ticker daily volatilities times their weights, and its diversification ratio is
  that average divided by the portfolio volatility when the latter is a positive number
  (and 1 otherwise); a result is returned for every non-empty table with one weight per
  column. For a complete table of at least two rows whose portfolio variance, the
  double sum of weight times weight times sample covariance, is positive, the ratio is
  the sum of weight times the square root of the ticker's sample variance, divided by
  the square root of the portfolio variance. For two tickers with the same return
  series (any non-empty series) at weights one half each the ratio is 1, and for the
  uncorrelated series (-1, 0, 1) and (1, -2, 1) at weights one half each the portfolio
  volatility is 1 and the ratio is (1 + sqrt 3) / 2.
\<close>

theorem diversification_ratio_spec:
  "(calculate_portfolio_risk returns weights = Some r \<longrightarrow>
       covariance_matrix r = cov_matrix returns
     \<and> portfolio_volatility r =
         (case cov_matrix returns of
            None \<Rightarrow> None
          | Some c \<Rightarrow> py_sqrt (dot_product weights (matvec c weights)))
     \<and> individual_volatilities r = map std_of returns
     \<and> weighted_avg_volatility r = weighted_sum_skipna (map std_of returns) weights
     \<and> (\<forall>vol. portfolio_volatility r = Some vol \<and> 0 < vol \<longrightarrow>
           diversification_ratio r = weighted_avg_volatility r / vol)
     \<and> (\<not> (\<exists>vol. portfolio_volatility r = Some vol \<and> 0 < vol) \<longrightarrow>
           diversification_ratio r = 1))
   \<and> (\<not> returns_empty returns \<and> weights \<noteq> [] \<and> length weights = length returns \<longrightarrow>
        (\<exists>r. calculate_portfolio_risk returns weights = Some r))
   \<and> (returns \<noteq> [] \<and> (\<forall>col \<in> set returns. length col = n) \<and> 2 \<le> n
        \<and> length weights = length returns
        \<and> 0 < (\<Sum>i<length returns. \<Sum>j<length returns.
                 weights ! i * weights ! j * cov_entry (returns ! i) (returns ! j)) \<longrightarrow>
        (\<exists>r. calculate_portfolio_risk returns weights = Some r
           \<and> portfolio_volatility r
               = Some (sqrt (\<Sum>i<length returns. \<Sum>j<length returns.
                    weights ! i * weights ! j * cov_entry (returns ! i) (returns ! j)))
           \<and> weighted_avg_volatility r
               = sum_list (map2 (\<lambda>col w. sqrt (cov_entry col col) * w) returns weights)
           \<and> diversification_ratio r
               = sum_list (map2 (\<lambda>col w. sqrt (cov_entry col col) * w) returns weights)
                 / sqrt (\<Sum>i<length returns. \<Sum>j<length returns.
                    weights ! i * weights ! j * cov_entry (returns ! i) (returns ! j))))
   \<and> (xs \<noteq> [] \<longrightarrow>
        (\<exists>r. calculate_portfolio_risk [xs, xs] [1 / 2, 1 / 2] = Some r
           \<and> diversification_ratio r = 1))
   \<and> (\<exists>r. calculate_portfolio_risk [[- 1, 0, 1], [1, - 2, 1]] [1 / 2, 1 / 2] = Some r
         \<and> portfolio_volatility r = Some 1
         \<and> diversification_ratio r = (1 + sqrt 3) / 2)"
proof -
  have a1: "covariance_matrix r = cov_matrix returns
     \<and> portfolio_volatility r =
         (case cov_matrix returns of
            None \<Rightarrow> None
          | Some c \<Rightarrow> py_sqrt (dot_product weights (matvec c weights)))
     \<and> individual_volatilities r = map std_of returns
     \<and> weighted_avg_volatility r = weighted_sum_skipna (map std_of returns) weights
     \<and> (\<forall>vol. portfolio_volatility r = Some vol \<and> 0 < vol \<longrightarrow>
           diversification_ratio r = weighted_avg_volatility r / vol)
     \<and> (\<not> (\<exists>vol. portfolio_volatility r = Some vol \<and> 0 < vol) \<longrightarrow>
           diversification_ratio r = 1)"
    if res: "calculate_portfolio_risk returns weights = Some r"
  proof -
    from res have g: "\<not> returns_empty returns" "weights \<noteq> []"
      "length weights = length returns"
      by (auto simp: calculate_portfolio_risk_def split: if_splits)
    from portfolio_risk_result [OF g] res have r: "r =
      \<lparr> portfolio_volatility =
              (case cov_matrix returns of
                 None \<Rightarrow> None
               | Some c \<Rightarrow> py_sqrt (dot_product weights (matvec c weights))),
            covariance_matrix = cov_matrix returns,
            individual_volatilities = map std_of returns,
            weighted_avg_volatility = weighted_sum_skipna (map std_of returns) weights,
            diversification_ratio =
              (case (case cov_matrix returns of
                       None \<Rightarrow> None
                     | Some c \<Rightarrow> py_sqrt (dot_product weights (matvec c weights))) of
                 None \<Rightarrow> 1
               | Some vol \<Rightarrow>
                   if 0 < vol
                   then weighted_sum_skipna (map std_of returns) weights / vol else 1) \<rparr>"
      by simp
    show ?thesis
      by (subst (1 2 3 4 5 6 7 8 9) r) (auto split: option.splits)
  qed
  have a2: "\<exists>r. calculate_portfolio_risk returns weights = Some r"
    if "\<not> returns_empty returns" "weights \<noteq> []" "length weights = length returns"
    using portfolio_risk_result [OF that] by blast
  have ex: "\<exists>r. calculate_portfolio_risk [[- 1, 0, 1], [1, - 2, 1]] [1 / 2, 1 / 2] = Some r
         \<and> portfolio_volatility r = Some 1
         \<and> diversification_ratio r = (1 + sqrt 3) / 2"
    by (simp add: uncorrelated_pair)
  from a1 a2 portfolio_risk_complete [of returns n weights] identical_pair_ratio [of xs] ex
  show ?thesis by (intro conjI impI; (elim conjE)?; assumption?) blast+
qed

lemma cov_entry_swing: "cov_entry swing swing = 1 / 1024"
  by (simp add: swing_def cov_entry_def mean_of_def)

lemma swing_pair_variance:
  "(\<Sum>i<length [swing, swing]. \<Sum>j<length [swing, swing].
      [1 / 2, 1 / 2] ! i * [1 / 2, 1 / 2] ! j * cov_entry ([swing, swing] ! i) ([swing, swing] ! j))
   = 1 / 1024"
  by (simp add: numeral_2_eq_2 cov_entry_swing)

theorem diversification_ratio_spec_witness:
  "swing \<noteq> [] \<and> \<not> returns_empty [swing, swing] \<and> 2 \<le> length swing
   \<and> (\<exists>r. calculate_portfolio_risk [swing, swing] [1 / 2, 1 / 2] = Some r
         \<and> portfolio_volatility r = Some (1 / 32)
         \<and> weighted_avg_volatility r = 1 / 32
         \<and> diversification_ratio r = 1)"
proof -
  have ne: "swing \<noteq> []" and n: "2 \<le> length swing" by (simp_all add: swing_def)
  have nonempty: "\<not> returns_empty [swing, swing]"
    by (simp add: returns_empty_def table_rows_def swing_def)
  have hyp: "[swing, swing] \<noteq> [] \<and> (\<forall>col \<in> set [swing, swing]. length col = 3) \<and> 2 \<le> (3::nat)
        \<and> length [1 / 2, 1 / 2 :: real] = length [swing, swing]
        \<and> 0 < (\<Sum>i<length [swing, swing]. \<Sum>j<length [swing, swing].
                 [1 / 2, 1 / 2] ! i * [1 / 2, 1 / 2] ! j
                   * cov_entry ([swing, swing] ! i) ([swing, swing] ! j))"
    unfolding swing_pair_variance by (simp add: swing_def)
  have ws: "sum_list (map2 (\<lambda>col w. sqrt (cov_entry col col) * w) [swing, swing] [1 / 2, 1 / 2])
      = 1 / 32"
    by (simp add: cov_entry_swing sqrt_1024)
  from diversification_ratio_spec [of "[swing, swing]" "[1 / 2, 1 / 2]" _ 3 swing] hyp
  have "\<exists>r. calculate_portfolio_risk [swing, swing] [1 / 2, 1 / 2] = Some r
           \<and> portfolio_volatility r
               = Some (sqrt (\<Sum>i<length [swing, swing]. \<Sum>j<length [swing, swing].
                    [1 / 2, 1 / 2] ! i * [1 / 2, 1 / 2] ! j
                      * cov_entry ([swing, swing] ! i) ([swing, swing] ! j)))
           \<and> weighted_avg_volatility r
               = sum_list (map2 (\<lambda>col w. sqrt (cov_entry col col) * w) [swing, swing]
                   [1 / 2, 1 / 2])
           \<and> diversification_ratio r
               = sum_list (map2 (\<lambda>col w. sqrt (cov_entry col col) * w) [swing, swing]
                   [1 / 2, 1 / 2])
                 / sqrt (\<Sum>i<length [swing, swing]. \<Sum>j<length [swing, swing].
                    [1 / 2, 1 / 2] ! i * [1 / 2, 1 / 2] ! j
                      * cov_entry ([swing, swing] ! i) ([swing, swing] ! j))"
    by blast
  then have "\<exists>r. calculate_portfolio_risk [swing, swing] [1 / 2, 1 / 2] = Some r
         \<and> portfolio_volatility r = Some (1 / 32)
         \<and> weighted_avg_volatility r = 1 / 32
         \<and> diversification_ratio r = 1"
    unfolding swing_pair_variance ws sqrt_1024 by simp
  with ne n nonempty show ?thesis by blast
qed

subsection \<open>Value at risk and volatility\<close>

lemma dropna_values_simps [simp]:
  "dropna_values [] = []"
  "dropna_values (Some v # xs) = v # dropna_values xs"
  "dropna_values (None # xs) = dropna_values xs"
  by (simp_all add: dropna_values_def)
























end
